theory Spec2Isabelle
  imports Main
begin

section \<open>Values exchanged with the backend\<close>

text \<open>
  Response bodies are parsed JSON and are typed \<open>any\<close> in the client. An object is
  kept as the list of its own properties in the order JavaScript enumerates them (keys
  distinct, as after parsing); numbers are the integral ones. The value \<open>undefined\<close> is
  \<open>None\<close> of an option type around \<open>json\<close>.
\<close>

datatype json =
    JNull
  | JBool bool
  | JNum int
  | JStr string
  | JArr "json list"
  | JObj "(string \<times> json) list"

text \<open>JavaScript truthiness, as tested by \<open>if (x)\<close>, \<open>!x\<close> and \<open>x && y\<close>.\<close>

fun truthy :: "json \<Rightarrow> bool" where
  "truthy JNull = False"
| "truthy (JBool b) = b"
| "truthy (JNum n) = (n \<noteq> 0)"
| "truthy (JStr s) = (s \<noteq> [])"
| "truthy (JArr xs) = True"
| "truthy (JObj kvs) = True"

fun truthy_opt :: "json option \<Rightarrow> bool" where
  "truthy_opt None = False"
| "truthy_opt (Some v) = truthy v"

text \<open>
  Property access \<open>x?.k\<close> for the property names the client reads (\<open>message\<close>,
  \<open>detail\<close>): only an object can carry them; on \<open>undefined\<close>, \<open>null\<close>, a string, a
  number, a boolean or an array the access yields \<open>undefined\<close>.
\<close>

fun get_prop :: "json option \<Rightarrow> string \<Rightarrow> json option" where
  "get_prop (Some (JObj kvs)) k = map_of kvs k"
| "get_prop _ k = None"

fun is_string :: "json \<Rightarrow> bool" where
  "is_string (JStr s) = True"
| "is_string _ = False"

text \<open>
  The error a failed request rejects with (an Axios error): \<open>response\<close> is present when
  the server answered, \<open>message\<close> is the error's own text.
\<close>

record error_response =
  status :: int
  data :: "json option"

record api_error =
  response :: "error_response option"
  message :: "string option"

text \<open>\<open>error?.response?.data\<close>\<close>

definition response_data :: "api_error \<Rightarrow> json option" where
  "response_data err = (case response err of None \<Rightarrow> None | Some r \<Rightarrow> data r)"

section \<open>Query provider: retry policy\<close>

text \<open>
  \<open>error?.response?.status >= 400 && error?.response?.status < 500\<close>: a comparison with
  \<open>undefined\<close> is false.
\<close>

definition status_is_4xx :: "api_error \<Rightarrow> bool" where
  "status_is_4xx err =
     (case response err of
        None \<Rightarrow> False
      | Some r \<Rightarrow> status r \<ge> 400 \<and> status r < 500)"

definition queries_retry :: "nat \<Rightarrow> api_error \<Rightarrow> bool" where
  "queries_retry failureCount err =
     (if status_is_4xx err then False else failureCount < 3)"

text \<open>
  The \<open>retry\<close> option of the query library is a boolean, a number or a predicate; the
  library asks it after each failure whether to try again.
\<close>

datatype retry_option =
    RetryBool bool
  | RetryCount nat
  | RetryFn "nat \<Rightarrow> api_error \<Rightarrow> bool"

fun should_retry :: "retry_option \<Rightarrow> nat \<Rightarrow> api_error \<Rightarrow> bool" where
  "should_retry (RetryBool b) failureCount err = b"
| "should_retry (RetryCount n) failureCount err = (failureCount < n)"
| "should_retry (RetryFn f) failureCount err = f failureCount err"

record default_options =
  queries_staleTime :: nat
  queries_retry_option :: retry_option
  mutations_retry_option :: retry_option

definition defaultOptions :: default_options where
  "defaultOptions =
     \<lparr> queries_staleTime = 5 * 60 * 1000,
       queries_retry_option = RetryFn queries_retry,
       mutations_retry_option = RetryBool False \<rparr>"

section \<open>Shared error formatter\<close>

text \<open>
  \<open>getErrorMessage\<close> returns whichever value it selects; the source annotates the result
  as a string but the body fields are untyped, so the model keeps the value as it is.
\<close>

definition fallback_message :: string where
  "fallback_message = ''An unexpected error occurred''"

text \<open>\<open>if (x) return x\<close>: the value when it is truthy.\<close>

fun when_truthy :: "json option \<Rightarrow> json option" where
  "when_truthy None = None"
| "when_truthy (Some v) = (if truthy v then Some v else None)"

fun when_nonempty :: "string option \<Rightarrow> string option" where
  "when_nonempty None = None"
| "when_nonempty (Some m) = (if m \<noteq> [] then Some m else None)"

definition getErrorMessage :: "api_error \<Rightarrow> json" where
  "getErrorMessage err =
     (case when_truthy (get_prop (response_data err) ''message'') of
        Some m \<Rightarrow> m
      | None \<Rightarrow>
     (case when_truthy (get_prop (response_data err) ''detail'') of
        Some d \<Rightarrow> d
      | None \<Rightarrow>
     (case when_nonempty (message err) of
        Some m \<Rightarrow> JStr m
      | None \<Rightarrow> JStr fallback_message)))"

section \<open>API client\<close>

text \<open>
  Identifiers are interpolated into request paths by a template literal; for the
  integers that identifiers are, this is the decimal numeral.
\<close>

definition digit_char :: "nat \<Rightarrow> char" where
  "digit_char d = ''0123456789'' ! d"

fun show_nat :: "nat \<Rightarrow> string" where
  "show_nat n = (if n < 10 then [digit_char n] else show_nat (n div 10) @ [digit_char (n mod 10)])"

declare show_nat.simps [simp del]

definition show_int :: "int \<Rightarrow> string" where
  "show_int i = (if i < 0 then ''-'' @ show_nat (nat (- i)) else show_nat (nat i))"

datatype http_verb = GET | POST | PATCH | DELETE

record http_request =
  http_method :: http_verb
  url :: string
  headers :: "(string \<times> string) list"
  params :: "(string \<times> json option) list"
  body :: "json option"

fun set_header :: "string \<Rightarrow> string \<Rightarrow> (string \<times> string) list \<Rightarrow> (string \<times> string) list" where
  "set_header k v [] = [(k, v)]"
| "set_header k v ((k', v') # hs) =
     (if k' = k then (k, v) # hs else (k', v') # set_header k v hs)"

text \<open>
  The browser as the client sees it: local storage, and the requests handed to the
  transport so far (each as it left the request interceptor).
\<close>

record browser =
  localStorage :: "string \<rightharpoonup> string"
  sent :: "http_request list"

text \<open>
  The backend is outside the client. A request is answered either by the body of a
  successful response, typed as the calling method declares it, or by a rejection.
  Request payloads are given as the JSON value that is sent.
\<close>

type_synonym 'a server = "http_request \<Rightarrow> api_error + 'a"

definition default_headers :: "(string \<times> string) list" where
  "default_headers = [(''Content-Type'', ''application/json'')]"

definition request_interceptor :: "(string \<rightharpoonup> string) \<Rightarrow> http_request \<Rightarrow> http_request" where
  "request_interceptor storage config =
     (case storage ''access_token'' of
        None \<Rightarrow> config
      | Some token \<Rightarrow>
          if token \<noteq> []
          then config\<lparr>headers := set_header ''Authorization'' (''Bearer '' @ token) (headers config)\<rparr>
          else config)"

definition api_request :: "'a server \<Rightarrow> http_request \<Rightarrow> browser \<Rightarrow> (api_error + 'a) \<times> browser" where
  "api_request srv config b =
     (let cfg = request_interceptor (localStorage b) config
      in (srv cfg, b\<lparr>sent := sent b @ [cfg]\<rparr>))"

definition api_get :: "'a server \<Rightarrow> string \<Rightarrow> (string \<times> json option) list \<Rightarrow> browser \<Rightarrow> (api_error + 'a) \<times> browser" where
  "api_get srv path ps =
     api_request srv \<lparr>http_method = GET, url = path, headers = default_headers, params = ps, body = None\<rparr>"

definition api_post :: "'a server \<Rightarrow> string \<Rightarrow> json option \<Rightarrow> browser \<Rightarrow> (api_error + 'a) \<times> browser" where
  "api_post srv path payload =
     api_request srv \<lparr>http_method = POST, url = path, headers = default_headers, params = [], body = payload\<rparr>"

definition api_patch :: "'a server \<Rightarrow> string \<Rightarrow> json option \<Rightarrow> browser \<Rightarrow> (api_error + 'a) \<times> browser" where
  "api_patch srv path payload =
     api_request srv \<lparr>http_method = PATCH, url = path, headers = default_headers, params = [], body = payload\<rparr>"

definition api_delete :: "'a server \<Rightarrow> string \<Rightarrow> browser \<Rightarrow> (api_error + 'a) \<times> browser" where
  "api_delete srv path =
     api_request srv \<lparr>http_method = DELETE, url = path, headers = default_headers, params = [], body = None\<rparr>"

text \<open>A method declared \<open>Promise<void>\<close> awaits the request and drops the body.\<close>

definition discard_body :: "(api_error + 'a) \<times> browser \<Rightarrow> (api_error + unit) \<times> browser" where
  "discard_body r = (case r of (Inl e, b) \<Rightarrow> (Inl e, b) | (Inr x, b) \<Rightarrow> (Inr (), b))"

subsection \<open>Entities\<close>

text \<open>
  The entities as the client's type declarations give them. A field marked optional is
  an option; dates and timestamps are the strings the backend sends; the numeric scores
  are kept as integers, since nothing below depends on their fractional part. The record
  fields \<open>id\<close>, \<open>description\<close> and \<open>created_at\<close> occur in both entities and carry
  the entity's name here.
\<close>

datatype priority_level = Low | Medium | High | Urgent

record category =
  category_id :: int
  name :: string
  color_code :: string
  category_description :: "string option"
  usage_count :: int
  category_created_at :: string

record task =
  task_id :: int
  title :: string
  description :: string
  ai_enhanced_description :: "string option"
  priority :: priority_level
  priority_score :: "int option"
  due_date :: "string option"
  ai_suggested_deadline :: "string option"
  is_completed :: bool
  category :: "category option"
  context_relevance_score :: "int option"
  created_at :: string
  updated_at :: string
  completed_at :: "string option"

text \<open>The optional filter object of the task list.\<close>

record task_filters =
  f_completed :: "bool option"
  f_priority :: "string option"
  f_category :: "int option"
  f_search :: "string option"
  f_ordering :: "string option"

record context_filters =
  c_entry_type :: "string option"
  c_date :: "string option"
  c_search :: "string option"

definition task_filter_params :: "task_filters option \<Rightarrow> (string \<times> json option) list" where
  "task_filter_params f =
     (case f of
        None \<Rightarrow> []
      | Some p \<Rightarrow>
          [(''completed'', map_option JBool (f_completed p)),
           (''priority'', map_option JStr (f_priority p)),
           (''category'', map_option JNum (f_category p)),
           (''search'', map_option JStr (f_search p)),
           (''ordering'', map_option JStr (f_ordering p))])"

definition context_filter_params :: "context_filters option \<Rightarrow> (string \<times> json option) list" where
  "context_filter_params f =
     (case f of
        None \<Rightarrow> []
      | Some p \<Rightarrow>
          [(''entry_type'', map_option JStr (c_entry_type p)),
           (''date'', map_option JStr (c_date p)),
           (''search'', map_option JStr (c_search p))])"

text \<open>\<open>contextData || []\<close> sent as \<open>context_data\<close>.\<close>

definition context_data_body :: "string list option \<Rightarrow> json option" where
  "context_data_body contextData =
     Some (JObj [(''context_data'',
                  JArr (map JStr (case contextData of None \<Rightarrow> [] | Some xs \<Rightarrow> xs)))])"

subsection \<open>Tasks API\<close>

definition tasksApi_getTasks :: "'a server \<Rightarrow> task_filters option \<Rightarrow> browser \<Rightarrow> (api_error + 'a) \<times> browser" where
  "tasksApi_getTasks srv ps = api_get srv ''/tasks/'' (task_filter_params ps)"

definition tasksApi_getTask :: "task server \<Rightarrow> int \<Rightarrow> browser \<Rightarrow> (api_error + task) \<times> browser" where
  "tasksApi_getTask srv i = api_get srv (''/tasks/'' @ show_int i @ ''/'') []"

definition tasksApi_createTask :: "task server \<Rightarrow> json \<Rightarrow> browser \<Rightarrow> (api_error + task) \<times> browser" where
  "tasksApi_createTask srv t = api_post srv ''/tasks/'' (Some t)"

definition tasksApi_updateTask :: "task server \<Rightarrow> int \<Rightarrow> json \<Rightarrow> browser \<Rightarrow> (api_error + task) \<times> browser" where
  "tasksApi_updateTask srv i updates = api_patch srv (''/tasks/'' @ show_int i @ ''/'') (Some updates)"

definition tasksApi_deleteTask :: "'a server \<Rightarrow> int \<Rightarrow> browser \<Rightarrow> (api_error + unit) \<times> browser" where
  "tasksApi_deleteTask srv i b = discard_body (api_delete srv (''/tasks/'' @ show_int i @ ''/'') b)"

definition tasksApi_completeTask :: "task server \<Rightarrow> int \<Rightarrow> browser \<Rightarrow> (api_error + task) \<times> browser" where
  "tasksApi_completeTask srv i = api_post srv (''/tasks/'' @ show_int i @ ''/complete/'') None"

definition tasksApi_enhanceTask :: "'a server \<Rightarrow> int \<Rightarrow> string list option \<Rightarrow> browser \<Rightarrow> (api_error + 'a) \<times> browser" where
  "tasksApi_enhanceTask srv i contextData =
     api_post srv (''/tasks/'' @ show_int i @ ''/ai_enhance/'') (context_data_body contextData)"

definition tasksApi_getAIRecommendations :: "'a server \<Rightarrow> int option \<Rightarrow> browser \<Rightarrow> (api_error + 'a) \<times> browser" where
  "tasksApi_getAIRecommendations srv limit =
     api_get srv ''/tasks/ai_recommendations/'' [(''limit'', map_option JNum limit)]"

definition tasksApi_recalculatePriority :: "'a server \<Rightarrow> int \<Rightarrow> browser \<Rightarrow> (api_error + 'a) \<times> browser" where
  "tasksApi_recalculatePriority srv i = api_post srv (''/tasks/'' @ show_int i @ ''/recalculate_priority/'') None"

definition tasksApi_getStats :: "'a server \<Rightarrow> browser \<Rightarrow> (api_error + 'a) \<times> browser" where
  "tasksApi_getStats srv = api_get srv ''/tasks/stats/'' []"

definition tasksApi_getTodayTasks :: "task list server \<Rightarrow> browser \<Rightarrow> (api_error + task list) \<times> browser" where
  "tasksApi_getTodayTasks srv = api_get srv ''/tasks/today/'' []"

definition tasksApi_getOverdueTasks :: "task list server \<Rightarrow> browser \<Rightarrow> (api_error + task list) \<times> browser" where
  "tasksApi_getOverdueTasks srv = api_get srv ''/tasks/overdue/'' []"

subsection \<open>Categories API\<close>

text \<open>
  The category list arrives either inside a paginated envelope or bare:
  \<open>response.data.results || response.data\<close>.
\<close>

datatype categories_body = Enveloped "category list" | Bare "category list"

definition categoriesApi_getCategories :: "categories_body server \<Rightarrow> browser \<Rightarrow> (api_error + category list) \<times> browser" where
  "categoriesApi_getCategories srv b =
     (case api_get srv ''/categories/'' [] b of
        (Inl e, b') \<Rightarrow> (Inl e, b')
      | (Inr (Enveloped results), b') \<Rightarrow> (Inr results, b')
      | (Inr (Bare cs), b') \<Rightarrow> (Inr cs, b'))"

definition categoriesApi_createCategory :: "category server \<Rightarrow> json \<Rightarrow> browser \<Rightarrow> (api_error + category) \<times> browser" where
  "categoriesApi_createCategory srv c = api_post srv ''/categories/'' (Some c)"

definition categoriesApi_updateCategory :: "category server \<Rightarrow> int \<Rightarrow> json \<Rightarrow> browser \<Rightarrow> (api_error + category) \<times> browser" where
  "categoriesApi_updateCategory srv i updates =
     api_patch srv (''/categories/'' @ show_int i @ ''/'') (Some updates)"

definition categoriesApi_deleteCategory :: "'a server \<Rightarrow> int \<Rightarrow> browser \<Rightarrow> (api_error + unit) \<times> browser" where
  "categoriesApi_deleteCategory srv i b = discard_body (api_delete srv (''/categories/'' @ show_int i @ ''/'') b)"

subsection \<open>Context API\<close>

definition contextApi_getContextEntries :: "'a server \<Rightarrow> context_filters option \<Rightarrow> browser \<Rightarrow> (api_error + 'a) \<times> browser" where
  "contextApi_getContextEntries srv ps = api_get srv ''/context/'' (context_filter_params ps)"

definition contextApi_createContextEntry :: "'a server \<Rightarrow> json \<Rightarrow> browser \<Rightarrow> (api_error + 'a) \<times> browser" where
  "contextApi_createContextEntry srv entry = api_post srv ''/context/'' (Some entry)"

definition contextApi_updateContextEntry :: "'a server \<Rightarrow> int \<Rightarrow> json \<Rightarrow> browser \<Rightarrow> (api_error + 'a) \<times> browser" where
  "contextApi_updateContextEntry srv i updates =
     api_patch srv (''/context/'' @ show_int i @ ''/'') (Some updates)"

definition contextApi_deleteContextEntry :: "'a server \<Rightarrow> int \<Rightarrow> browser \<Rightarrow> (api_error + unit) \<times> browser" where
  "contextApi_deleteContextEntry srv i b = discard_body (api_delete srv (''/context/'' @ show_int i @ ''/'') b)"

definition contextApi_analyzeContext :: "'a server \<Rightarrow> int \<Rightarrow> browser \<Rightarrow> (api_error + 'a) \<times> browser" where
  "contextApi_analyzeContext srv i = api_post srv (''/context/'' @ show_int i @ ''/analyze/'') None"

definition contextApi_getSummary :: "'a server \<Rightarrow> string option \<Rightarrow> browser \<Rightarrow> (api_error + 'a) \<times> browser" where
  "contextApi_getSummary srv d = api_get srv ''/context/summary/'' [(''date'', map_option JStr d)]"

definition contextApi_bulkProcess :: "'a server \<Rightarrow> int list \<Rightarrow> browser \<Rightarrow> (api_error + 'a) \<times> browser" where
  "contextApi_bulkProcess srv ids =
     api_post srv ''/context/bulk_process/'' (Some (JObj [(''entry_ids'', JArr (map JNum ids))]))"

definition contextApi_getUnprocessed :: "'a server \<Rightarrow> browser \<Rightarrow> (api_error + 'a) \<times> browser" where
  "contextApi_getUnprocessed srv = api_get srv ''/context/unprocessed/'' []"

definition contextApi_getHighRelevance :: "'a server \<Rightarrow> browser \<Rightarrow> (api_error + 'a) \<times> browser" where
  "contextApi_getHighRelevance srv = api_get srv ''/context/high_relevance/'' []"

definition contextApi_getWithSuggestions :: "'a server \<Rightarrow> browser \<Rightarrow> (api_error + 'a) \<times> browser" where
  "contextApi_getWithSuggestions srv = api_get srv ''/context/with_suggestions/'' []"

subsection \<open>AI API\<close>

definition aiApi_enhanceTask :: "'a server \<Rightarrow> int \<Rightarrow> string list option \<Rightarrow> browser \<Rightarrow> (api_error + 'a) \<times> browser" where
  "aiApi_enhanceTask srv taskId contextData =
     api_post srv (''/ai/tasks/'' @ show_int taskId @ ''/enhance/'') (context_data_body contextData)"

definition aiApi_getTaskRecommendations :: "'a server \<Rightarrow> int option \<Rightarrow> browser \<Rightarrow> (api_error + 'a) \<times> browser" where
  "aiApi_getTaskRecommendations srv limit =
     api_get srv ''/ai/tasks/recommendations/'' [(''limit'', map_option JNum limit)]"

definition aiApi_suggestTasksFromContext :: "'a server \<Rightarrow> int list \<Rightarrow> browser \<Rightarrow> (api_error + 'a) \<times> browser" where
  "aiApi_suggestTasksFromContext srv contextIds =
     api_post srv ''/ai/tasks/suggest-from-context/''
       (Some (JObj [(''context_ids'', JArr (map JNum contextIds))]))"

definition aiApi_analyzeContext :: "'a server \<Rightarrow> int \<Rightarrow> browser \<Rightarrow> (api_error + 'a) \<times> browser" where
  "aiApi_analyzeContext srv contextId =
     api_post srv (''/ai/context/'' @ show_int contextId @ ''/analyze/'') None"

definition aiApi_generateContextSummary :: "'a server \<Rightarrow> string option \<Rightarrow> string option \<Rightarrow> int option \<Rightarrow> browser \<Rightarrow> (api_error + 'a) \<times> browser" where
  "aiApi_generateContextSummary srv startDate endDate days =
     api_get srv ''/ai/context/summary/''
       [(''start_date'', map_option JStr startDate),
        (''end_date'', map_option JStr endDate),
        (''days'', map_option JNum days)]"

definition aiApi_bulkProcessContext :: "'a server \<Rightarrow> int list \<Rightarrow> browser \<Rightarrow> (api_error + 'a) \<times> browser" where
  "aiApi_bulkProcessContext srv contextIds =
     api_post srv ''/ai/context/bulk-process/''
       (Some (JObj [(''context_ids'', JArr (map JNum contextIds))]))"

definition aiApi_generateDailyInsights :: "'a server \<Rightarrow> string option \<Rightarrow> browser \<Rightarrow> (api_error + 'a) \<times> browser" where
  "aiApi_generateDailyInsights srv d = api_get srv ''/ai/insights/daily/'' [(''date'', map_option JStr d)]"

definition aiApi_analyzeProductivityPatterns :: "'a server \<Rightarrow> int option \<Rightarrow> browser \<Rightarrow> (api_error + 'a) \<times> browser" where
  "aiApi_analyzeProductivityPatterns srv days =
     api_get srv ''/ai/insights/productivity/'' [(''days'', map_option JNum days)]"

definition aiApi_healthCheck :: "'a server \<Rightarrow> browser \<Rightarrow> (api_error + 'a) \<times> browser" where
  "aiApi_healthCheck srv = api_get srv ''/ai/health/'' []"

subsection \<open>Insights API\<close>

definition insightsApi_getInsights :: "'a server \<Rightarrow> string option option \<Rightarrow> browser \<Rightarrow> (api_error + 'a) \<times> browser" where
  "insightsApi_getInsights srv ps =
     api_get srv ''/insights/''
       (case ps of None \<Rightarrow> [] | Some d \<Rightarrow> [(''date'', map_option JStr d)])"

definition insightsApi_getInsight :: "'a server \<Rightarrow> int \<Rightarrow> browser \<Rightarrow> (api_error + 'a) \<times> browser" where
  "insightsApi_getInsight srv i = api_get srv (''/insights/'' @ show_int i @ ''/'') []"

definition insightsApi_getActionableInsights :: "'a server \<Rightarrow> browser \<Rightarrow> (api_error + 'a) \<times> browser" where
  "insightsApi_getActionableInsights srv = api_get srv ''/insights/actionable/'' []"

definition insightsApi_dismissInsight :: "'a server \<Rightarrow> int \<Rightarrow> browser \<Rightarrow> (api_error + 'a) \<times> browser" where
  "insightsApi_dismissInsight srv i = api_post srv (''/insights/'' @ show_int i @ ''/dismiss/'') None"

subsection \<open>Auth API\<close>

record tokens =
  access :: string
  refresh :: string

definition localStorage_setItem :: "string \<Rightarrow> string \<Rightarrow> browser \<Rightarrow> browser" where
  "localStorage_setItem k v b = b\<lparr>localStorage := (localStorage b)(k \<mapsto> v)\<rparr>"

definition localStorage_removeItem :: "string \<Rightarrow> browser \<Rightarrow> browser" where
  "localStorage_removeItem k b = b\<lparr>localStorage := (localStorage b)(k := None)\<rparr>"

definition credentials :: "string \<Rightarrow> string \<Rightarrow> json" where
  "credentials username password = JObj [(''username'', JStr username), (''password'', JStr password)]"

definition authApi_login :: "tokens server \<Rightarrow> string \<Rightarrow> string \<Rightarrow> browser \<Rightarrow> (api_error + unit) \<times> browser" where
  "authApi_login srv username password b =
     (case api_post srv ''/auth/login/'' (Some (credentials username password)) b of
        (Inl e, b') \<Rightarrow> (Inl e, b')
      | (Inr t, b') \<Rightarrow>
          (Inr (),
           localStorage_setItem ''refresh_token'' (refresh t)
             (localStorage_setItem ''access_token'' (access t) b')))"

definition authApi_signup :: "'a server \<Rightarrow> string \<Rightarrow> string \<Rightarrow> browser \<Rightarrow> (api_error + unit) \<times> browser" where
  "authApi_signup srv username password b =
     discard_body (api_post srv ''/auth/signup/'' (Some (credentials username password)) b)"

definition authApi_logout :: "browser \<Rightarrow> browser" where
  "authApi_logout b =
     localStorage_removeItem ''refresh_token'' (localStorage_removeItem ''access_token'' b)"

section \<open>Query cache\<close>

text \<open>
  Query keys are arrays of strings, identifiers and, for a task list, the filter object
  (typed \<open>any\<close>, possibly \<open>undefined\<close>).
\<close>

type_synonym query_key = "json option list"

definition taskKeys_all :: query_key where
  "taskKeys_all = [Some (JStr ''tasks'')]"

definition taskKeys_lists :: query_key where
  "taskKeys_lists = taskKeys_all @ [Some (JStr ''list'')]"

definition taskKeys_list :: "json option \<Rightarrow> query_key" where
  "taskKeys_list filters = taskKeys_lists @ [filters]"

definition taskKeys_details :: query_key where
  "taskKeys_details = taskKeys_all @ [Some (JStr ''detail'')]"

definition taskKeys_detail :: "int \<Rightarrow> query_key" where
  "taskKeys_detail i = taskKeys_details @ [Some (JNum i)]"

text \<open>
  The same key function where the caller passes a value typed \<open>any\<close>, which may be
  \<open>undefined\<close>.
\<close>

definition taskKeys_detail_any :: "json option \<Rightarrow> query_key" where
  "taskKeys_detail_any i = taskKeys_details @ [i]"

definition taskKeys_stats :: query_key where
  "taskKeys_stats = taskKeys_all @ [Some (JStr ''stats'')]"

definition taskKeys_today :: query_key where
  "taskKeys_today = taskKeys_all @ [Some (JStr ''today'')]"

definition taskKeys_overdue :: query_key where
  "taskKeys_overdue = taskKeys_all @ [Some (JStr ''overdue'')]"

definition categoryKeys_all :: query_key where
  "categoryKeys_all = [Some (JStr ''categories'')]"

definition categoryKeys_lists :: query_key where
  "categoryKeys_lists = categoryKeys_all @ [Some (JStr ''list'')]"

definition categoryKeys_details :: query_key where
  "categoryKeys_details = categoryKeys_all @ [Some (JStr ''detail'')]"

definition categoryKeys_detail :: "int \<Rightarrow> query_key" where
  "categoryKeys_detail i = categoryKeys_details @ [Some (JNum i)]"

text \<open>
  The query library identifies a query by the hash of its key: the key is written out
  as JSON with the properties of every object sorted by name, and an \<open>undefined\<close>
  element of the key array is written as \<open>null\<close>. The written form is kept here as the
  JSON value it denotes. Property names are compared byte by byte.
\<close>

fun string_le :: "string \<Rightarrow> string \<Rightarrow> bool" where
  "string_le [] ys = True"
| "string_le (x # xs) [] = False"
| "string_le (x # xs) (y # ys) =
     ((of_char x :: nat) < of_char y \<or> (x = y \<and> string_le xs ys))"

fun insert_property :: "string \<times> json \<Rightarrow> (string \<times> json) list \<Rightarrow> (string \<times> json) list" where
  "insert_property p [] = [p]"
| "insert_property p (q # qs) =
     (if string_le (fst p) (fst q) then p # q # qs else q # insert_property p qs)"

definition sort_properties :: "(string \<times> json) list \<Rightarrow> (string \<times> json) list" where
  "sort_properties kvs = foldr insert_property kvs []"

fun stable_json :: "json \<Rightarrow> json" where
  "stable_json (JArr xs) = JArr (map stable_json xs)"
| "stable_json (JObj kvs) = JObj (sort_properties (map (\<lambda>(k, v). (k, stable_json v)) kvs))"
| "stable_json v = v"

fun hash_part :: "json option \<Rightarrow> json" where
  "hash_part None = JNull"
| "hash_part (Some v) = stable_json v"

definition hashKey :: "query_key \<Rightarrow> json list" where
  "hashKey k = map hash_part k"

text \<open>A key element that is a string or a number.\<close>

fun plain_part :: "json option \<Rightarrow> bool" where
  "plain_part (Some (JStr x)) = True"
| "plain_part (Some (JNum n)) = True"
| "plain_part p = False"

text \<open>What the hooks keep under a key.\<close>

record 'a paginated =
  count :: int
  next_page :: "string option"
  previous_page :: "string option"
  results :: "'a list"

text \<open>
  The enhance call is declared to return \<open>any\<close>. The client reads two shapes from it:
  the enhance hook reads the task itself (its \<open>id\<close>), the enhancer panel reads a result
  with a \<open>success\<close> flag, the \<open>task\<close>, the \<open>enhancements\<close> and an \<open>error\<close>.
\<close>

record enhance_result =
  success :: bool
  result_task :: "task option"
  enhancements :: "json option"
  result_error :: "string option"

datatype enhance_response = TaskItself task | Enveloped_result enhance_result

text \<open>\<open>enhancedTask.id\<close>: a result object has no such property.\<close>

fun response_id :: "enhance_response \<Rightarrow> json option" where
  "response_id (TaskItself t) = Some (JNum (task_id t))"
| "response_id (Enveloped_result r) = None"

datatype query_data =
    TaskData task
  | TaskPageData "task paginated"
  | TaskListData "task list"
  | StatsData json
  | EnhanceResultData enhance_result
  | CategoryData category
  | CategoryListData "category list"

fun response_value :: "enhance_response \<Rightarrow> query_data" where
  "response_value (TaskItself t) = TaskData t"
| "response_value (Enveloped_result r) = EnhanceResultData r"

record query =
  state_data :: "query_data option"
  isInvalidated :: bool

type_synonym query_client = "query_key \<rightharpoonup> query"

text \<open>
  The operations of the query library that the hooks call. The library is not part of
  the repository; these are the documented effects of its client on the cache. A filter
  key matches every query whose key it is a prefix of; \<open>invalidateQueries\<close> marks the
  matching queries so that their next read goes to the network, \<open>removeQueries\<close> drops
  them, \<open>setQueryData\<close> stores data in the one query that has the hash of the given
  key and leaves that query fresh. The cache is read by key, so a write shows under
  every key of the same hash. The filter keys of the hooks are made of strings and
  numbers; such a filter matches the keys of one hash alike.
\<close>

fun partialMatchKey :: "query_key \<Rightarrow> query_key \<Rightarrow> bool" where
  "partialMatchKey k [] = True"
| "partialMatchKey [] (f # fs) = False"
| "partialMatchKey (x # xs) (f # fs) = (x = f \<and> partialMatchKey xs fs)"

definition mark_invalidated :: "query option \<Rightarrow> query option" where
  "mark_invalidated e = (case e of None \<Rightarrow> None | Some q \<Rightarrow> Some (q\<lparr>isInvalidated := True\<rparr>))"

definition invalidateQueries :: "query_key \<Rightarrow> query_client \<Rightarrow> query_client" where
  "invalidateQueries filterKey qc =
     (\<lambda>k. if partialMatchKey k filterKey then mark_invalidated (qc k) else qc k)"

definition removeQueries :: "query_key \<Rightarrow> query_client \<Rightarrow> query_client" where
  "removeQueries filterKey qc = (\<lambda>k. if partialMatchKey k filterKey then None else qc k)"

definition getQueryData :: "query_key \<Rightarrow> query_client \<Rightarrow> query_data option" where
  "getQueryData k qc = (case qc k of None \<Rightarrow> None | Some q \<Rightarrow> state_data q)"

definition setQueryData :: "query_key \<Rightarrow> query_data \<Rightarrow> query_client \<Rightarrow> query_client" where
  "setQueryData k v qc =
     (\<lambda>k'. if hashKey k' = hashKey k
           then Some \<lparr>state_data = Some v, isInvalidated = False\<rparr>
           else qc k')"



text \<open>
  A read of a key is answered from the cache only when a query is there and has not been
  invalidated; otherwise it goes to the network.
\<close>

definition refetch_needed :: "query_client \<Rightarrow> query_key \<Rightarrow> bool" where
  "refetch_needed qc k = (case qc k of None \<Rightarrow> True | Some q \<Rightarrow> isInvalidated q)"

section \<open>Mutation hooks\<close>

datatype toast = ToastSuccess string | ToastError json

record app =
  client :: query_client
  toasts :: "toast list"
  net :: browser

definition toast_success :: "string \<Rightarrow> app \<Rightarrow> app" where
  "toast_success m s = s\<lparr>toasts := toasts s @ [ToastSuccess m]\<rparr>"

definition toast_error :: "json \<Rightarrow> app \<Rightarrow> app" where
  "toast_error m s = s\<lparr>toasts := toasts s @ [ToastError m]\<rparr>"

definition queryClient_invalidateQueries :: "query_key \<Rightarrow> app \<Rightarrow> app" where
  "queryClient_invalidateQueries k s = s\<lparr>client := invalidateQueries k (client s)\<rparr>"

definition queryClient_removeQueries :: "query_key \<Rightarrow> app \<Rightarrow> app" where
  "queryClient_removeQueries k s = s\<lparr>client := removeQueries k (client s)\<rparr>"

definition queryClient_setQueryData :: "query_key \<Rightarrow> query_data \<Rightarrow> app \<Rightarrow> app" where
  "queryClient_setQueryData k v s = s\<lparr>client := setQueryData k v (client s)\<rparr>"


text \<open>Every mutation hook reports a failure the same way.\<close>

definition onError :: "api_error \<Rightarrow> app \<Rightarrow> app" where
  "onError err s = toast_error (getErrorMessage err) s"

subsection \<open>Task mutations\<close>

definition useCreateTask_onSuccess :: "task \<Rightarrow> app \<Rightarrow> app" where
  "useCreateTask_onSuccess newTask s =
     (let s1 = queryClient_invalidateQueries taskKeys_lists s;
          s2 = queryClient_invalidateQueries taskKeys_stats s1;
          s3 = queryClient_invalidateQueries taskKeys_today s2
      in toast_success ''Task created successfully!'' s3)"

definition useUpdateTask_onSuccess :: "task \<Rightarrow> app \<Rightarrow> app" where
  "useUpdateTask_onSuccess updatedTask s =
     (let s0 = queryClient_setQueryData (taskKeys_detail (task_id updatedTask)) (TaskData updatedTask) s;
          s1 = queryClient_invalidateQueries taskKeys_lists s0;
          s2 = queryClient_invalidateQueries taskKeys_stats s1;
          s3 = queryClient_invalidateQueries taskKeys_today s2;
          s4 = queryClient_invalidateQueries taskKeys_overdue s3
      in toast_success ''Task updated successfully!'' s4)"

definition useDeleteTask_onSuccess :: "int \<Rightarrow> app \<Rightarrow> app" where
  "useDeleteTask_onSuccess deletedId s =
     (let s0 = queryClient_removeQueries (taskKeys_detail deletedId) s;
          s1 = queryClient_invalidateQueries taskKeys_lists s0;
          s2 = queryClient_invalidateQueries taskKeys_stats s1;
          s3 = queryClient_invalidateQueries taskKeys_today s2;
          s4 = queryClient_invalidateQueries taskKeys_overdue s3
      in toast_success ''Task deleted successfully!'' s4)"

text \<open>The two decorated messages end in an emoji, written here as its UTF-8 bytes.\<close>

definition party_popper :: string where
  "party_popper = [CHR 0xF0, CHR 0x9F, CHR 0x8E, CHR 0x89]"

definition sparkles :: string where
  "sparkles = [CHR 0xE2, CHR 0x9C, CHR 0xA8]"

definition useCompleteTask_onSuccess :: "task \<Rightarrow> app \<Rightarrow> app" where
  "useCompleteTask_onSuccess completedTask s =
     (let s0 = queryClient_setQueryData (taskKeys_detail (task_id completedTask)) (TaskData completedTask) s;
          s1 = queryClient_invalidateQueries taskKeys_lists s0;
          s2 = queryClient_invalidateQueries taskKeys_stats s1;
          s3 = queryClient_invalidateQueries taskKeys_today s2;
          s4 = queryClient_invalidateQueries taskKeys_overdue s3
      in toast_success (''Task completed! '' @ party_popper) s4)"

definition useEnhanceTask_onSuccess :: "enhance_response \<Rightarrow> app \<Rightarrow> app" where
  "useEnhanceTask_onSuccess enhancedTask s =
     (let s0 = queryClient_setQueryData (taskKeys_detail_any (response_id enhancedTask))
                 (response_value enhancedTask) s;
          s1 = queryClient_invalidateQueries taskKeys_lists s0
      in toast_success (''Task enhanced with AI! '' @ sparkles) s1)"

subsection \<open>Category mutations\<close>




subsection \<open>Running a mutation\<close>

text \<open>
  \<open>mutate\<close> of the query library, with retries off as the provider configures mutations:
  the mutation function runs once; its result goes to \<open>onSuccess\<close> together with the
  variables, its rejection to \<open>onError\<close>.
\<close>

definition mutate ::
  "('v \<Rightarrow> browser \<Rightarrow> (api_error + 'd) \<times> browser) \<Rightarrow> ('d \<Rightarrow> 'v \<Rightarrow> app \<Rightarrow> app) \<Rightarrow>
   (api_error \<Rightarrow> app \<Rightarrow> app) \<Rightarrow> 'v \<Rightarrow> app \<Rightarrow> app" where
  "mutate mutationFn onSuccess' onError' variables s =
     (case mutationFn variables (net s) of
        (Inr d, b) \<Rightarrow> onSuccess' d variables (s\<lparr>net := b\<rparr>)
      | (Inl e, b) \<Rightarrow> onError' e (s\<lparr>net := b\<rparr>))"

definition useCreateTask_mutate :: "task server \<Rightarrow> json \<Rightarrow> app \<Rightarrow> app" where
  "useCreateTask_mutate srv =
     mutate (\<lambda>t. tasksApi_createTask srv t) (\<lambda>newTask _. useCreateTask_onSuccess newTask) onError"

definition useUpdateTask_mutate :: "task server \<Rightarrow> int \<times> json \<Rightarrow> app \<Rightarrow> app" where
  "useUpdateTask_mutate srv =
     mutate (\<lambda>(i, updates). tasksApi_updateTask srv i updates)
            (\<lambda>updatedTask _. useUpdateTask_onSuccess updatedTask) onError"

definition useDeleteTask_mutate :: "unit server \<Rightarrow> int \<Rightarrow> app \<Rightarrow> app" where
  "useDeleteTask_mutate srv =
     mutate (\<lambda>i. tasksApi_deleteTask srv i) (\<lambda>_ deletedId. useDeleteTask_onSuccess deletedId) onError"

definition useCompleteTask_mutate :: "task server \<Rightarrow> int \<Rightarrow> app \<Rightarrow> app" where
  "useCompleteTask_mutate srv =
     mutate (\<lambda>i. tasksApi_completeTask srv i)
            (\<lambda>completedTask _. useCompleteTask_onSuccess completedTask) onError"

definition useEnhanceTask_mutate :: "enhance_response server \<Rightarrow> int \<Rightarrow> app \<Rightarrow> app" where
  "useEnhanceTask_mutate srv =
     mutate (\<lambda>i. tasksApi_enhanceTask srv i None)
            (\<lambda>enhancedTask _. useEnhanceTask_onSuccess enhancedTask) onError"

section \<open>Task card\<close>

definition handleToggleComplete :: "task server \<Rightarrow> task \<Rightarrow> app \<Rightarrow> app" where
  "handleToggleComplete srv t s =
     (if is_completed t
      then useUpdateTask_mutate srv (task_id t, JObj [(''is_completed'', JBool False)]) s
      else useCompleteTask_mutate srv (task_id t) s)"

text \<open>\<open>confirmed\<close> is the user's answer to the confirmation dialog.\<close>

definition handleDelete :: "unit server \<Rightarrow> bool \<Rightarrow> task \<Rightarrow> app \<Rightarrow> app" where
  "handleDelete srv confirmed t s = (if confirmed then useDeleteTask_mutate srv (task_id t) s else s)"

definition handleEnhance :: "enhance_response server \<Rightarrow> task \<Rightarrow> app \<Rightarrow> app" where
  "handleEnhance srv t s = useEnhanceTask_mutate srv (task_id t) s"

text \<open>
  The buttons in the card's action row, left to right. \<open>!x\<close> on an optional string
  holds when the string is missing or empty.
\<close>

datatype card_action = EnhanceWithAI | EditTask | DeleteTask

fun not_string :: "string option \<Rightarrow> bool" where
  "not_string None = True"
| "not_string (Some x) = (x = [])"

definition card_actions :: "task \<Rightarrow> card_action list" where
  "card_actions t =
     (if \<not> is_completed t \<and> not_string (ai_enhanced_description t) then [EnhanceWithAI] else [])
     @ [EditTask, DeleteTask]"

section \<open>Enhancer panel\<close>

text \<open>
  The panel calls the same enhance method as the hook. \<open>updated\<close> collects what the
  panel hands to its \<open>onTaskUpdated\<close> callback.
\<close>

record enhancer_panel =
  isEnhancing :: bool
  enhancementResult :: "json option"
  panel_error :: "string option"

record enhancer_env =
  panel :: enhancer_panel
  panel_net :: browser
  updated :: "task option list"

text \<open>\<open>result.error || 'Enhancement failed'\<close>\<close>

definition error_or_default :: "string option \<Rightarrow> string" where
  "error_or_default e = (case when_nonempty e of Some m \<Rightarrow> m | None \<Rightarrow> ''Enhancement failed'')"

text \<open>
  The body of the \<open>try\<close> block after the call has returned; a task has neither a
  \<open>success\<close> nor an \<open>error\<close> property.
\<close>

fun on_result :: "enhance_response \<Rightarrow> enhancer_env \<Rightarrow> enhancer_env" where
  "on_result (Enveloped_result r) env =
     (if success r
      then env\<lparr>panel := (panel env)\<lparr>enhancementResult := enhancements r\<rparr>,
               updated := updated env @ [result_task r]\<rparr>
      else env\<lparr>panel := (panel env)\<lparr>panel_error := Some (error_or_default (result_error r))\<rparr>\<rparr>)"
| "on_result (TaskItself t) env =
     env\<lparr>panel := (panel env)\<lparr>panel_error := Some (error_or_default None)\<rparr>\<rparr>"

definition handleEnhanceTask :: "enhance_response server \<Rightarrow> task \<Rightarrow> enhancer_env \<Rightarrow> enhancer_env" where
  "handleEnhanceTask srv t env0 =
     (let env1 = env0\<lparr>panel := \<lparr>isEnhancing = True, enhancementResult = None, panel_error = None\<rparr>\<rparr>;
          (r, b) = tasksApi_enhanceTask srv (task_id t) None (panel_net env1);
          env2 = env1\<lparr>panel_net := b\<rparr>;
          env3 = (case r of
                    Inr result \<Rightarrow> on_result result env2
                  | Inl err \<Rightarrow> env2\<lparr>panel := (panel env2)\<lparr>panel_error := Some ''Failed to enhance task''\<rparr>\<rparr>)
      in env3\<lparr>panel := (panel env3)\<lparr>isEnhancing := False\<rparr>\<rparr>)"

section \<open>Signup page\<close>

record signup_page =
  username :: string
  password :: string
  confirmPassword :: string
  error :: json
  loading :: bool

text \<open>
  The page together with what its submit handler acts on: the browser, the routes pushed
  to the router, and whether the submit event's default action was prevented.
\<close>

record signup_env =
  page :: signup_page
  page_net :: browser
  pushed :: "string list"
  defaultPrevented :: bool

definition setError :: "json \<Rightarrow> signup_env \<Rightarrow> signup_env" where
  "setError v env = env\<lparr>page := (page env)\<lparr>error := v\<rparr>\<rparr>"

definition setLoading :: "bool \<Rightarrow> signup_env \<Rightarrow> signup_env" where
  "setLoading v env = env\<lparr>page := (page env)\<lparr>loading := v\<rparr>\<rparr>"

definition router_push :: "string \<Rightarrow> signup_env \<Rightarrow> signup_env" where
  "router_push path env = env\<lparr>pushed := pushed env @ [path]\<rparr>"

text \<open>\<open>Object.values(x)\<close> and \<open>xs.flat()\<close> (one level).\<close>

fun object_values :: "json \<Rightarrow> json list" where
  "object_values (JObj kvs) = map snd kvs"
| "object_values (JArr xs) = xs"
| "object_values (JStr s) = map (\<lambda>c. JStr [c]) s"
| "object_values _ = []"

fun flat_item :: "json \<Rightarrow> json list" where
  "flat_item (JArr ys) = ys"
| "flat_item v = [v]"

definition array_flat :: "json list \<Rightarrow> json list" where
  "array_flat xs = concat (map flat_item xs)"

definition signup_fallback :: string where
  "signup_fallback = ''Signup failed. Please try a different username.''"

text \<open>The value the \<open>catch\<close> block of the submit handler passes to \<open>setError\<close>.\<close>

definition caught_error :: "api_error \<Rightarrow> json" where
  "caught_error err =
     (case when_truthy (response_data err) of
        Some d \<Rightarrow>
          if is_string d then d
          else (case when_truthy (get_prop (Some d) ''detail'') of
                  Some dt \<Rightarrow> dt
                | None \<Rightarrow> JArr (array_flat (object_values d)))
      | None \<Rightarrow> JStr signup_fallback)"

definition handleSubmit :: "'a server \<Rightarrow> signup_env \<Rightarrow> signup_env" where
  "handleSubmit srv env0 =
     (let env1 = env0\<lparr>defaultPrevented := True\<rparr>;
          env2 = setError (JStr []) env1
      in if password (page env2) \<noteq> confirmPassword (page env2)
         then setError (JStr ''Passwords do not match.'') env2
         else
           (let env3 = setLoading True env2;
                (r, b) = authApi_signup srv (username (page env3)) (password (page env3)) (page_net env3);
                env4 = env3\<lparr>page_net := b\<rparr>;
                env5 = (case r of
                          Inr _ \<Rightarrow> router_push ''/login'' env4
                        | Inl err \<Rightarrow> setError (caught_error err) env4)
            in setLoading False env5))"



section \<open>Sample data\<close>

text \<open>A small cache, browser and form state on which the properties below are instantiated.\<close>

definition work_category :: category where
  "work_category =
     \<lparr>category_id = 3, name = ''Work'', color_code = ''#2563eb'', category_description = None,
      usage_count = 2, category_created_at = ''2025-01-01T09:00:00Z''\<rparr>"

definition home_category :: category where
  "home_category =
     \<lparr>category_id = 4, name = ''Home'', color_code = ''#22c55e'', category_description = None,
      usage_count = 0, category_created_at = ''2025-01-02T09:00:00Z''\<rparr>"

definition office_category :: category where
  "office_category = work_category\<lparr>name := ''Office''\<rparr>"

definition errands_category :: category where
  "errands_category =
     \<lparr>category_id = 5, name = ''Errands'', color_code = ''#f97316'', category_description = None,
      usage_count = 0, category_created_at = ''2025-01-04T09:00:00Z''\<rparr>"

definition report_task :: task where
  "report_task =
     \<lparr>task_id = 7, title = ''Write report'', description = ''Quarterly numbers'',
      ai_enhanced_description = None, priority = High, priority_score = None,
      due_date = None, ai_suggested_deadline = None, is_completed = False,
      category = Some work_category, context_relevance_score = None,
      created_at = ''2025-01-03T09:00:00Z'', updated_at = ''2025-01-03T09:00:00Z'',
      completed_at = None\<rparr>"

definition enhanced_report_task :: task where
  "enhanced_report_task =
     report_task\<lparr>ai_enhanced_description := Some ''Collect the quarterly numbers and write them up''\<rparr>"

definition enhance_envelope :: enhance_result where
  "enhance_envelope =
     \<lparr>success = True, result_task = Some enhanced_report_task,
      enhancements =
        Some (JObj [(''enhanced_description'', JStr ''Collect the quarterly numbers and write them up'')]),
      result_error = None\<rparr>"

definition fresh :: "query_data \<Rightarrow> query" where
  "fresh d = \<lparr>state_data = Some d, isInvalidated = False\<rparr>"

definition sample_client :: query_client where
  "sample_client =
     foldr (\<lambda>(k, v). setQueryData k v)
       [(taskKeys_list None,
           TaskPageData \<lparr>count = 1, next_page = None, previous_page = None, results = [report_task]\<rparr>),
        (taskKeys_stats, StatsData (JObj [(''total_tasks'', JNum 1)])),
        (taskKeys_today, TaskListData [report_task]),
        (taskKeys_overdue, TaskListData []),
        (taskKeys_detail 7, TaskData report_task),
        (categoryKeys_lists, CategoryListData [work_category, home_category]),
        (categoryKeys_detail 3, CategoryData work_category)]
       Map.empty"

definition signed_in :: browser where
  "signed_in =
     \<lparr>localStorage = [''access_token'' \<mapsto> ''abc'', ''refresh_token'' \<mapsto> ''def'', ''username'' \<mapsto> ''ann''],
      sent = []\<rparr>"

definition signed_out :: browser where
  "signed_out = \<lparr>localStorage = Map.empty, sent = []\<rparr>"

definition stats_request :: http_request where
  "stats_request =
     \<lparr>http_method = GET, url = ''/tasks/stats/'', headers = default_headers, params = [], body = None\<rparr>"

definition sample_app :: app where
  "sample_app = \<lparr>client = sample_client, toasts = [], net = signed_in\<rparr>"

definition sample_form :: "string \<Rightarrow> string \<Rightarrow> signup_env" where
  "sample_form pw confirm =
     \<lparr>page = \<lparr>username = ''ann'', password = pw, confirmPassword = confirm,
              error = JStr [], loading = False\<rparr>,
      page_net = \<lparr>localStorage = Map.empty, sent = []\<rparr>,
      pushed = [], defaultPrevented = False\<rparr>"

definition rejection :: "int \<Rightarrow> json option \<Rightarrow> api_error" where
  "rejection code payload =
     \<lparr>response = Some \<lparr>status = code, data = payload\<rparr>,
      message = Some ''Request failed''\<rparr>"

section \<open>Properties of the query cache operations\<close>

lemma partialMatchKey_refl: "partialMatchKey k k"
  by (induction k) simp_all

lemma mark_invalidated_twice [simp]: "mark_invalidated (mark_invalidated e) = mark_invalidated e"
  by (simp add: mark_invalidated_def split: option.splits)

lemma refetch_needed_marked:
  "qc k = mark_invalidated e \<Longrightarrow> refetch_needed qc k"
  by (simp add: refetch_needed_def mark_invalidated_def split: option.splits)

lemma taskKeys_detail_any: "taskKeys_detail j = taskKeys_detail_any (Some (JNum j))"
  by (simp add: taskKeys_detail_def taskKeys_detail_any_def)

lemma listed_not_detail_any:
  "partialMatchKey k taskKeys_lists \<Longrightarrow> \<not> partialMatchKey k (taskKeys_detail_any p)"
  by (cases k; cases "tl k") (auto simp add: taskKeys_lists_def taskKeys_detail_any_def
        taskKeys_details_def taskKeys_all_def)

lemma listed_differs_detail_any:
  "partialMatchKey k taskKeys_lists \<Longrightarrow> k \<noteq> taskKeys_detail_any p"
  using listed_not_detail_any partialMatchKey_refl by blast

lemma listed_not_detail:
  "partialMatchKey k taskKeys_lists \<Longrightarrow> \<not> partialMatchKey k (taskKeys_detail j)"
  by (simp add: taskKeys_detail_any listed_not_detail_any)

lemma listed_differs_detail:
  "partialMatchKey k taskKeys_lists \<Longrightarrow> k \<noteq> taskKeys_detail j"
  by (simp add: taskKeys_detail_any listed_differs_detail_any)

lemma invalidate_hit:
  "partialMatchKey k f \<Longrightarrow> refetch_needed (invalidateQueries f qc) k"
  by (simp add: refetch_needed_def invalidateQueries_def mark_invalidated_def split: option.splits)

lemma invalidate_keeps:
  "refetch_needed qc k \<Longrightarrow> refetch_needed (invalidateQueries f qc) k"
  by (simp add: refetch_needed_def invalidateQueries_def mark_invalidated_def split: option.splits)

lemma invalidate_miss:
  "\<not> partialMatchKey k f \<Longrightarrow> invalidateQueries f qc k = qc k"
  by (simp add: invalidateQueries_def split: option.splits)

lemma invalidate_data:
  "getQueryData k (invalidateQueries f qc) = getQueryData k qc"
  by (simp add: getQueryData_def invalidateQueries_def mark_invalidated_def split: option.splits)

lemma invalidate_None:
  "qc k = None \<Longrightarrow> invalidateQueries f qc k = None"
  by (simp add: invalidateQueries_def mark_invalidated_def)

lemma remove_hit: "partialMatchKey k f \<Longrightarrow> removeQueries f qc k = None"
  by (simp add: removeQueries_def)

lemma remove_miss: "\<not> partialMatchKey k f \<Longrightarrow> removeQueries f qc k = qc k"
  by (simp add: removeQueries_def)

lemma stable_json_JStr: "stable_json v = JStr x \<longleftrightarrow> v = JStr x"
  by (cases v) auto

lemma stable_json_JNum: "stable_json v = JNum n \<longleftrightarrow> v = JNum n"
  by (cases v) auto

lemma hash_part_JStr [simp]: "hash_part p = JStr x \<longleftrightarrow> p = Some (JStr x)"
  by (cases p) (auto simp add: stable_json_JStr)

lemma hash_part_JNum [simp]: "hash_part p = JNum n \<longleftrightarrow> p = Some (JNum n)"
  by (cases p) (auto simp add: stable_json_JNum)

lemma hash_part_JStr_sym [simp]: "JStr x = hash_part p \<longleftrightarrow> p = Some (JStr x)"
  by (metis hash_part_JStr)

lemma hash_part_JNum_sym [simp]: "JNum n = hash_part p \<longleftrightarrow> p = Some (JNum n)"
  by (metis hash_part_JNum)

text \<open>A key of strings and numbers shares its hash with no other key.\<close>

lemma hashKey_task_keys [simp]:
  "hashKey k = hashKey taskKeys_lists \<longleftrightarrow> k = taskKeys_lists"
  "hashKey k = hashKey taskKeys_stats \<longleftrightarrow> k = taskKeys_stats"
  "hashKey k = hashKey taskKeys_today \<longleftrightarrow> k = taskKeys_today"
  "hashKey k = hashKey taskKeys_overdue \<longleftrightarrow> k = taskKeys_overdue"
  "hashKey k = hashKey (taskKeys_detail j) \<longleftrightarrow> k = taskKeys_detail j"
  "hashKey k = hashKey categoryKeys_lists \<longleftrightarrow> k = categoryKeys_lists"
  "hashKey k = hashKey (categoryKeys_detail j) \<longleftrightarrow> k = categoryKeys_detail j"
  by (auto simp add: hashKey_def map_eq_Cons_conv taskKeys_all_def taskKeys_lists_def
        taskKeys_details_def taskKeys_detail_def taskKeys_stats_def taskKeys_today_def
        taskKeys_overdue_def categoryKeys_all_def categoryKeys_lists_def
        categoryKeys_details_def categoryKeys_detail_def)

text \<open>
  Keys of one hash agree on their strings and numbers, so a filter key made of strings
  and numbers matches them alike; the filter keys of the hooks are of this kind.
\<close>

lemma plain_part_hash:
  assumes "plain_part f" and "hash_part p' = hash_part p"
  shows "(p' = f) = (p = f)"
proof -
  from assms(1) consider x where "f = Some (JStr x)" | n where "f = Some (JNum n)"
    by (cases f rule: plain_part.cases) auto
  then show ?thesis
  proof cases
    case 1
    with assms(2) show ?thesis
      using hash_part_JStr [of p' x] hash_part_JStr [of p x] by metis
  next
    case 2
    with assms(2) show ?thesis
      using hash_part_JNum [of p' n] hash_part_JNum [of p n] by metis
  qed
qed

lemma hashKey_partialMatchKey:
  "list_all plain_part f \<Longrightarrow> hashKey k' = hashKey k \<Longrightarrow>
   partialMatchKey k' f = partialMatchKey k f"
proof (induction f arbitrary: k k')
  case Nil
  then show ?case by simp
next
  case (Cons p f)
  show ?case
  proof (cases k)
    case Nil
    with Cons.prems show ?thesis by (simp add: hashKey_def)
  next
    case k: (Cons x xs)
    with Cons.prems(2) obtain x' xs' where k': "k' = x' # xs'"
      and parts: "hash_part x' = hash_part x" "hashKey xs' = hashKey xs"
      by (cases k') (simp_all add: hashKey_def)
    from Cons.prems(1) have plain: "plain_part p" "list_all plain_part f" by simp_all
    have "(x' = p) = (x = p)"
      using plain(1) parts(1) by (rule plain_part_hash)
    moreover have "partialMatchKey xs' f = partialMatchKey xs f"
      using plain(2) parts(2) by (rule Cons.IH)
    ultimately show ?thesis
      unfolding k k' by simp
  qed
qed

lemma hook_filters_plain:
  "list_all plain_part taskKeys_lists"
  "list_all plain_part taskKeys_stats"
  "list_all plain_part taskKeys_today"
  "list_all plain_part taskKeys_overdue"
  "list_all plain_part (taskKeys_detail j)"
  "list_all plain_part (categoryKeys_detail j)"
  by (simp_all add: taskKeys_all_def taskKeys_lists_def taskKeys_details_def taskKeys_detail_def
        taskKeys_stats_def taskKeys_today_def taskKeys_overdue_def categoryKeys_all_def
        categoryKeys_details_def categoryKeys_detail_def)

lemma listed_hash_differs_detail_any:
  "partialMatchKey k taskKeys_lists \<Longrightarrow> hashKey k \<noteq> hashKey (taskKeys_detail_any p)"
  by (cases k; cases "tl k")
     (auto simp add: hashKey_def taskKeys_lists_def taskKeys_detail_any_def taskKeys_details_def
        taskKeys_all_def)

lemma set_data_hit: "getQueryData k (setQueryData k v qc) = Some v"
  by (simp add: getQueryData_def setQueryData_def)

lemma set_data_same_hash:
  "hashKey k' = hashKey k \<Longrightarrow> getQueryData k' (setQueryData k v qc) = Some v"
  by (simp add: getQueryData_def setQueryData_def)

lemma set_data_miss: "hashKey k' \<noteq> hashKey k \<Longrightarrow> setQueryData k v qc k' = qc k'"
  by (simp add: setQueryData_def)



lemma client_toast [simp]: "client (toast_success m s) = client s"
  by (simp add: toast_success_def)

lemma client_invalidate [simp]:
  "client (queryClient_invalidateQueries k s) = invalidateQueries k (client s)"
  by (simp add: queryClient_invalidateQueries_def)

lemma client_remove [simp]:
  "client (queryClient_removeQueries k s) = removeQueries k (client s)"
  by (simp add: queryClient_removeQueries_def)

lemma client_set [simp]:
  "client (queryClient_setQueryData k v s) = setQueryData k v (client s)"
  by (simp add: queryClient_setQueryData_def)

lemmas task_key_defs =
  taskKeys_all_def taskKeys_lists_def taskKeys_list_def taskKeys_details_def
  taskKeys_detail_def taskKeys_detail_any_def taskKeys_stats_def taskKeys_today_def
  taskKeys_overdue_def

lemmas category_key_defs =
  categoryKeys_all_def categoryKeys_lists_def categoryKeys_details_def categoryKeys_detail_def

lemmas sample_defs =
  sample_app_def sample_client_def setQueryData_def hashKey_def signed_in_def fresh_def
  report_task_def
  work_category_def home_category_def office_category_def errands_category_def

lemma task_keys_apart [simp]:
  "\<not> partialMatchKey taskKeys_overdue taskKeys_lists"
  "\<not> partialMatchKey taskKeys_overdue taskKeys_stats"
  "\<not> partialMatchKey taskKeys_overdue taskKeys_today"
  "\<not> partialMatchKey taskKeys_stats taskKeys_lists"
  "\<not> partialMatchKey taskKeys_today taskKeys_lists"
  "taskKeys_overdue \<noteq> taskKeys_detail j"
  "taskKeys_stats \<noteq> taskKeys_detail j"
  "taskKeys_today \<noteq> taskKeys_detail j"
  "\<not> partialMatchKey taskKeys_overdue (taskKeys_detail j)"
  "\<not> partialMatchKey taskKeys_stats (taskKeys_detail j)"
  "\<not> partialMatchKey taskKeys_today (taskKeys_detail j)"
  "taskKeys_overdue \<noteq> taskKeys_detail_any p"
  "taskKeys_stats \<noteq> taskKeys_detail_any p"
  "taskKeys_today \<noteq> taskKeys_detail_any p"
  by (simp_all add: task_key_defs)

lemma category_keys_apart [simp]:
  "categoryKeys_lists \<noteq> categoryKeys_detail j"
  "categoryKeys_detail j \<noteq> categoryKeys_lists"
  "\<not> partialMatchKey categoryKeys_lists (categoryKeys_detail j)"
  by (simp_all add: category_key_defs)

subsection \<open>The cache after each task mutation\<close>

lemma client_create:
  "client (useCreateTask_onSuccess t s) =
     invalidateQueries taskKeys_today (invalidateQueries taskKeys_stats
       (invalidateQueries taskKeys_lists (client s)))"
  by (simp add: useCreateTask_onSuccess_def Let_def)

lemma client_update:
  "client (useUpdateTask_onSuccess t s) =
     invalidateQueries taskKeys_overdue (invalidateQueries taskKeys_today
       (invalidateQueries taskKeys_stats (invalidateQueries taskKeys_lists
         (setQueryData (taskKeys_detail (task_id t)) (TaskData t) (client s)))))"
  by (simp add: useUpdateTask_onSuccess_def Let_def)

lemma client_complete:
  "client (useCompleteTask_onSuccess t s) =
     invalidateQueries taskKeys_overdue (invalidateQueries taskKeys_today
       (invalidateQueries taskKeys_stats (invalidateQueries taskKeys_lists
         (setQueryData (taskKeys_detail (task_id t)) (TaskData t) (client s)))))"
  by (simp add: useCompleteTask_onSuccess_def Let_def)

lemma client_delete:
  "client (useDeleteTask_onSuccess i s) =
     invalidateQueries taskKeys_overdue (invalidateQueries taskKeys_today
       (invalidateQueries taskKeys_stats (invalidateQueries taskKeys_lists
         (removeQueries (taskKeys_detail i) (client s)))))"
  by (simp add: useDeleteTask_onSuccess_def Let_def)

lemma client_enhance:
  "client (useEnhanceTask_onSuccess r s) =
     invalidateQueries taskKeys_lists
       (setQueryData (taskKeys_detail_any (response_id r)) (response_value r) (client s))"
  by (simp add: useEnhanceTask_onSuccess_def Let_def)

text \<open>
  The rows of the invalidation matrix, as far as they hold for every input. After a
  successful task mutation every key of its row is invalidated (its entry, when there is
  one, keeps its data and is marked), so that its next read goes to the network:
  creating a task invalidates all task-list keys (every key under \<open>['tasks', 'list']\<close>),
  the statistics and today's tasks; updating and completing a task store the returned
  task under its detail key and invalidate all task-list keys, the statistics, today's
  and the overdue tasks; deleting a task evicts its detail entry and invalidates the same
  four; enhancing a task invalidates all task-list keys and, when the call returned the
  task itself, stores it under its detail key.
\<close>

lemma task_mutation_rows:
  "(\<forall>k. partialMatchKey k taskKeys_lists \<or> k = taskKeys_stats \<or> k = taskKeys_today
        \<longrightarrow> client (useCreateTask_onSuccess t s) k = mark_invalidated (client s k)
          \<and> refetch_needed (client (useCreateTask_onSuccess t s)) k)
   \<and> getQueryData (taskKeys_detail (task_id t)) (client (useUpdateTask_onSuccess t s)) = Some (TaskData t)
   \<and> (\<forall>k. partialMatchKey k taskKeys_lists \<or> k = taskKeys_stats \<or> k = taskKeys_today
            \<or> k = taskKeys_overdue
        \<longrightarrow> client (useUpdateTask_onSuccess t s) k = mark_invalidated (client s k)
          \<and> refetch_needed (client (useUpdateTask_onSuccess t s)) k)
   \<and> getQueryData (taskKeys_detail (task_id t)) (client (useCompleteTask_onSuccess t s)) = Some (TaskData t)
   \<and> (\<forall>k. partialMatchKey k taskKeys_lists \<or> k = taskKeys_stats \<or> k = taskKeys_today
            \<or> k = taskKeys_overdue
        \<longrightarrow> client (useCompleteTask_onSuccess t s) k = mark_invalidated (client s k)
          \<and> refetch_needed (client (useCompleteTask_onSuccess t s)) k)
   \<and> client (useDeleteTask_onSuccess i s) (taskKeys_detail i) = None
   \<and> (\<forall>k. partialMatchKey k taskKeys_lists \<or> k = taskKeys_stats \<or> k = taskKeys_today
            \<or> k = taskKeys_overdue
        \<longrightarrow> client (useDeleteTask_onSuccess i s) k = mark_invalidated (client s k)
          \<and> refetch_needed (client (useDeleteTask_onSuccess i s)) k)
   \<and> getQueryData (taskKeys_detail (task_id t)) (client (useEnhanceTask_onSuccess (TaskItself t) s))
       = Some (TaskData t)
   \<and> (\<forall>k. partialMatchKey k taskKeys_lists
        \<longrightarrow> client (useEnhanceTask_onSuccess r s) k = mark_invalidated (client s k)
          \<and> refetch_needed (client (useEnhanceTask_onSuccess r s)) k)"
proof -
  have three: "invalidateQueries taskKeys_today (invalidateQueries taskKeys_stats
          (invalidateQueries taskKeys_lists qc)) k = mark_invalidated (qc k)"
    if "partialMatchKey k taskKeys_lists \<or> k = taskKeys_stats \<or> k = taskKeys_today" for k qc
    using that by (auto simp add: invalidateQueries_def partialMatchKey_refl)
  have four: "invalidateQueries taskKeys_overdue (invalidateQueries taskKeys_today
          (invalidateQueries taskKeys_stats (invalidateQueries taskKeys_lists qc))) k
        = mark_invalidated (qc k)"
    if "partialMatchKey k taskKeys_lists \<or> k = taskKeys_stats \<or> k = taskKeys_today
          \<or> k = taskKeys_overdue"
    for k qc
    using that by (auto simp add: invalidateQueries_def partialMatchKey_refl)
  have apart: "k \<noteq> taskKeys_detail j \<and> \<not> partialMatchKey k (taskKeys_detail j)"
    if "partialMatchKey k taskKeys_lists \<or> k = taskKeys_stats \<or> k = taskKeys_today
          \<or> k = taskKeys_overdue"
    for k j
    using that listed_not_detail [of k j] listed_differs_detail [of k j] by auto
  have create: "client (useCreateTask_onSuccess t s) k = mark_invalidated (client s k)"
    if "partialMatchKey k taskKeys_lists \<or> k = taskKeys_stats \<or> k = taskKeys_today" for k
    using that by (simp add: client_create three)
  have update: "client (useUpdateTask_onSuccess t s) k = mark_invalidated (client s k)"
    and complete: "client (useCompleteTask_onSuccess t s) k = mark_invalidated (client s k)"
    and delete: "client (useDeleteTask_onSuccess i s) k = mark_invalidated (client s k)"
    if "partialMatchKey k taskKeys_lists \<or> k = taskKeys_stats \<or> k = taskKeys_today
          \<or> k = taskKeys_overdue" for k
    using that apart [OF that]
    by (simp_all add: client_update client_complete client_delete four set_data_miss remove_miss)
  have enhance: "client (useEnhanceTask_onSuccess r s) k = mark_invalidated (client s k)"
    if "partialMatchKey k taskKeys_lists" for k
    using that
    by (simp add: client_enhance invalidateQueries_def set_data_miss listed_hash_differs_detail_any)
  have written: "getQueryData (taskKeys_detail j)
        (invalidateQueries taskKeys_overdue (invalidateQueries taskKeys_today
          (invalidateQueries taskKeys_stats (invalidateQueries taskKeys_lists
            (setQueryData (taskKeys_detail j) v qc))))) = Some v" for j v qc
    by (simp add: invalidate_data set_data_hit)
  have removed: "client (useDeleteTask_onSuccess i s) (taskKeys_detail i) = None"
    by (simp add: client_delete invalidate_None remove_hit partialMatchKey_refl)
  have enhance_written:
    "getQueryData (taskKeys_detail (task_id t)) (client (useEnhanceTask_onSuccess (TaskItself t) s))
       = Some (TaskData t)"
    by (simp add: client_enhance invalidate_data set_data_hit taskKeys_detail_any)
  show ?thesis
    using create update complete delete enhance removed enhance_written
    by (auto simp add: client_update client_complete written intro: refetch_needed_marked)
qed

lemma task_mutation_rows_sample:
  "\<not> refetch_needed (client sample_app) (taskKeys_list None)
   \<and> \<not> refetch_needed (client sample_app) taskKeys_overdue
   \<and> refetch_needed (client (useCreateTask_onSuccess report_task sample_app)) (taskKeys_list None)
   \<and> refetch_needed (client (useCreateTask_onSuccess report_task sample_app)) taskKeys_today
   \<and> refetch_needed (client (useCompleteTask_onSuccess report_task sample_app)) taskKeys_overdue
   \<and> client (useDeleteTask_onSuccess 7 sample_app) (taskKeys_detail 7) = None
   \<and> client (useCreateTask_onSuccess report_task sample_app) taskKeys_stats
       = Some \<lparr>state_data = Some (StatsData (JObj [(''total_tasks'', JNum 1)])), isInvalidated = True\<rparr>"
proof -
  note inst = task_mutation_rows [of report_task sample_app 7]
  have listed: "partialMatchKey (taskKeys_list None) taskKeys_lists"
    by (simp add: task_key_defs)
  have before: "\<not> refetch_needed (client sample_app) (taskKeys_list None)"
    "\<not> refetch_needed (client sample_app) taskKeys_overdue"
    by (simp_all add: sample_defs refetch_needed_def task_key_defs category_key_defs)
  from inst
  have "client (useCreateTask_onSuccess report_task sample_app) taskKeys_stats
          = mark_invalidated (client sample_app taskKeys_stats)"
    by blast
  moreover
  have "client sample_app taskKeys_stats
       = Some \<lparr>state_data = Some (StatsData (JObj [(''total_tasks'', JNum 1)])), isInvalidated = False\<rparr>"
    by (simp add: sample_defs task_key_defs category_key_defs)
  ultimately
  have "client (useCreateTask_onSuccess report_task sample_app) taskKeys_stats
       = Some \<lparr>state_data = Some (StatsData (JObj [(''total_tasks'', JNum 1)])), isInvalidated = True\<rparr>"
    by (simp add: mark_invalidated_def)
  moreover note before
  moreover from inst listed
  have "refetch_needed (client (useCreateTask_onSuccess report_task sample_app)) (taskKeys_list None)"
    and "refetch_needed (client (useCreateTask_onSuccess report_task sample_app)) taskKeys_today"
    and "refetch_needed (client (useCompleteTask_onSuccess report_task sample_app)) taskKeys_overdue"
    and "client (useDeleteTask_onSuccess 7 sample_app) (taskKeys_detail 7) = None"
    by blast+
  ultimately show ?thesis by blast
qed

text \<open>
  The enhancer panel counts an answer of the enhance call as a success only when it is a
  result with the \<open>success\<close> flag set, and then takes the task out of it; the task
  itself as the answer is reported as a failure.
\<close>

lemma enhancer_reads_result:
  "updated (on_result (Enveloped_result enhance_envelope) env) = updated env @ [Some enhanced_report_task]
   \<and> panel_error (panel (on_result (Enveloped_result enhance_envelope) env)) = panel_error (panel env)
   \<and> updated (on_result (TaskItself t) env) = updated env
   \<and> panel_error (panel (on_result (TaskItself t) env)) = Some ''Enhancement failed''"
  by (simp add: enhance_envelope_def error_or_default_def)

text \<open>
  Claim C1. Every task mutation with a row in the invalidation matrix invalidates, on
  success, every key of the row, and update, complete and enhance write the returned
  task into the detail cache of its id (delete evicts it). The rows for create, update,
  complete and delete and the invalidation done by enhance hold as stated
  (\<open>task_mutation_rows\<close>). The write-through of enhance does not: on the result that the
  enhance call answers with, the handler reads an \<open>id\<close> that is not there and files the
  whole result under the detail key of \<open>undefined\<close>; the detail entry of the enhanced
  task keeps the old task and is not even marked, so a read of it is still answered from
  the cache.
\<close>

theorem enhance_result_misfiled:
  "getQueryData (taskKeys_detail 7) (client sample_app) = Some (TaskData report_task)
   \<and> getQueryData (taskKeys_detail 7)
         (client (useEnhanceTask_onSuccess (Enveloped_result enhance_envelope) sample_app))
       = Some (TaskData report_task)
   \<and> \<not> refetch_needed
         (client (useEnhanceTask_onSuccess (Enveloped_result enhance_envelope) sample_app))
         (taskKeys_detail 7)
   \<and> getQueryData [Some (JStr ''tasks''), Some (JStr ''detail''), None]
         (client (useEnhanceTask_onSuccess (Enveloped_result enhance_envelope) sample_app))
       = Some (EnhanceResultData enhance_envelope)
   \<and> result_task enhance_envelope = Some enhanced_report_task
   \<and> enhanced_report_task \<noteq> report_task"
  by (simp add: client_enhance invalidateQueries_def setQueryData_def hashKey_def getQueryData_def
        refetch_needed_def sample_app_def sample_client_def fresh_def task_key_defs
        category_key_defs enhance_envelope_def enhanced_report_task_def report_task_def)

text \<open>
  The entries a successful task mutation leaves as they were, as far as this holds for
  every input. Entries are addressed by key prefix, so a row's key stands for the
  queries under it. Creating a task changes nothing outside the task lists, the
  statistics and today's tasks, so the overdue-tasks entry stays. Updating, completing
  and deleting a task change nothing outside the task's detail entry, the task lists,
  the statistics, today's and the overdue tasks. Enhancing a task, whatever the call
  returned, leaves the statistics, today's and the overdue entries untouched; it changes
  nothing outside the task lists and the one query it writes, which is the task's detail
  entry when the call returned the task itself.
\<close>

lemma other_hash_differs_detail_any:
  "hashKey taskKeys_stats \<noteq> hashKey (taskKeys_detail_any p)"
  "hashKey taskKeys_today \<noteq> hashKey (taskKeys_detail_any p)"
  "hashKey taskKeys_overdue \<noteq> hashKey (taskKeys_detail_any p)"
  by (simp_all add: hashKey_def task_key_defs)

lemma task_mutation_frames:
  "(\<forall>k. \<not> partialMatchKey k taskKeys_lists \<and> \<not> partialMatchKey k taskKeys_stats
          \<and> \<not> partialMatchKey k taskKeys_today
        \<longrightarrow> client (useCreateTask_onSuccess t s) k = client s k)
   \<and> client (useCreateTask_onSuccess t s) taskKeys_overdue = client s taskKeys_overdue
   \<and> (\<forall>k. hashKey k \<noteq> hashKey (taskKeys_detail_any (response_id r))
          \<and> \<not> partialMatchKey k taskKeys_lists
        \<longrightarrow> client (useEnhanceTask_onSuccess r s) k = client s k)
   \<and> (\<forall>k. k \<noteq> taskKeys_detail (task_id t) \<and> \<not> partialMatchKey k taskKeys_lists
        \<longrightarrow> client (useEnhanceTask_onSuccess (TaskItself t) s) k = client s k)
   \<and> client (useEnhanceTask_onSuccess r s) taskKeys_stats = client s taskKeys_stats
   \<and> client (useEnhanceTask_onSuccess r s) taskKeys_today = client s taskKeys_today
   \<and> client (useEnhanceTask_onSuccess r s) taskKeys_overdue = client s taskKeys_overdue
   \<and> (\<forall>k. k \<noteq> taskKeys_detail (task_id t) \<and> \<not> partialMatchKey k taskKeys_lists
          \<and> \<not> partialMatchKey k taskKeys_stats \<and> \<not> partialMatchKey k taskKeys_today
          \<and> \<not> partialMatchKey k taskKeys_overdue
        \<longrightarrow> client (useUpdateTask_onSuccess t s) k = client s k
          \<and> client (useCompleteTask_onSuccess t s) k = client s k)
   \<and> (\<forall>k. \<not> partialMatchKey k (taskKeys_detail i) \<and> \<not> partialMatchKey k taskKeys_lists
          \<and> \<not> partialMatchKey k taskKeys_stats \<and> \<not> partialMatchKey k taskKeys_today
          \<and> \<not> partialMatchKey k taskKeys_overdue
        \<longrightarrow> client (useDeleteTask_onSuccess i s) k = client s k)"
  by (simp add: client_create client_enhance client_update client_complete client_delete
        invalidate_miss set_data_miss remove_miss other_hash_differs_detail_any
        taskKeys_detail_any [symmetric])

lemma task_mutation_frames_sample:
  "client (useCreateTask_onSuccess report_task sample_app) taskKeys_overdue
     = Some (fresh (TaskListData []))
   \<and> client (useEnhanceTask_onSuccess (TaskItself enhanced_report_task) sample_app) taskKeys_stats
     = Some (fresh (StatsData (JObj [(''total_tasks'', JNum 1)])))
   \<and> client (useEnhanceTask_onSuccess (TaskItself enhanced_report_task) sample_app) taskKeys_today
     = Some (fresh (TaskListData [report_task]))
   \<and> client (useEnhanceTask_onSuccess (Enveloped_result enhance_envelope) sample_app) taskKeys_overdue
     = Some (fresh (TaskListData []))
   \<and> client (useCompleteTask_onSuccess report_task sample_app) categoryKeys_lists
     = Some (fresh (CategoryListData [work_category, home_category]))
   \<and> client (useDeleteTask_onSuccess 7 sample_app) (categoryKeys_detail 3)
     = Some (fresh (CategoryData work_category))"
proof -
  note inst = task_mutation_frames [of report_task sample_app _ 7]
  have outside:
    "categoryKeys_lists \<noteq> taskKeys_detail (task_id report_task)"
    "\<not> partialMatchKey categoryKeys_lists taskKeys_lists"
    "\<not> partialMatchKey categoryKeys_lists taskKeys_stats"
    "\<not> partialMatchKey categoryKeys_lists taskKeys_today"
    "\<not> partialMatchKey categoryKeys_lists taskKeys_overdue"
    "\<not> partialMatchKey (categoryKeys_detail 3) (taskKeys_detail 7)"
    "\<not> partialMatchKey (categoryKeys_detail 3) taskKeys_lists"
    "\<not> partialMatchKey (categoryKeys_detail 3) taskKeys_stats"
    "\<not> partialMatchKey (categoryKeys_detail 3) taskKeys_today"
    "\<not> partialMatchKey (categoryKeys_detail 3) taskKeys_overdue"
    by (simp_all add: task_key_defs category_key_defs)
  have before:
    "client sample_app taskKeys_overdue = Some (fresh (TaskListData []))"
    "client sample_app taskKeys_stats = Some (fresh (StatsData (JObj [(''total_tasks'', JNum 1)])))"
    "client sample_app taskKeys_today = Some (fresh (TaskListData [report_task]))"
    "client sample_app categoryKeys_lists = Some (fresh (CategoryListData [work_category, home_category]))"
    "client sample_app (categoryKeys_detail 3) = Some (fresh (CategoryData work_category))"
    by (simp_all add: sample_app_def sample_client_def setQueryData_def hashKey_def fresh_def
          task_key_defs category_key_defs)
  from inst [of "TaskItself enhanced_report_task"] outside
  have "client (useCreateTask_onSuccess report_task sample_app) taskKeys_overdue
          = client sample_app taskKeys_overdue"
    and "client (useEnhanceTask_onSuccess (TaskItself enhanced_report_task) sample_app) taskKeys_stats
          = client sample_app taskKeys_stats"
    and "client (useEnhanceTask_onSuccess (TaskItself enhanced_report_task) sample_app) taskKeys_today
          = client sample_app taskKeys_today"
    and "client (useCompleteTask_onSuccess report_task sample_app) categoryKeys_lists
          = client sample_app categoryKeys_lists"
    and "client (useDeleteTask_onSuccess 7 sample_app) (categoryKeys_detail 3)
          = client sample_app (categoryKeys_detail 3)"
    by blast+
  moreover from inst [of "Enveloped_result enhance_envelope"]
  have "client (useEnhanceTask_onSuccess (Enveloped_result enhance_envelope) sample_app) taskKeys_overdue
          = client sample_app taskKeys_overdue"
    by blast
  ultimately show ?thesis using before by simp
qed

text \<open>
  Claim C2. A successful task mutation touches only the cache keys of its row in the
  matrix and leaves every other key as it was; in particular creating a task leaves the
  overdue-tasks key alone, and enhancing a task leaves the statistics, today's and the
  overdue keys alone. The particular statements and the frames of create, update,
  complete and delete hold (\<open>task_mutation_frames\<close>). The enhance handler does not keep
  to its row: on the result that the enhance call answers with, it creates a query under
  the detail key of \<open>undefined\<close>, read under the key with \<open>null\<close> as well. That key is
  neither the detail key of the enhanced task nor a task-list key, it was not in the
  cache before, and the task's own detail entry, which the row names, is left as it was.
\<close>

theorem enhance_result_outside_row:
  "task_id enhanced_report_task = 7
   \<and> client sample_app [Some (JStr ''tasks''), Some (JStr ''detail''), None] = None
   \<and> client (useEnhanceTask_onSuccess (Enveloped_result enhance_envelope) sample_app)
         [Some (JStr ''tasks''), Some (JStr ''detail''), None]
       = Some \<lparr>state_data = Some (EnhanceResultData enhance_envelope), isInvalidated = False\<rparr>
   \<and> client sample_app [Some (JStr ''tasks''), Some (JStr ''detail''), Some JNull] = None
   \<and> client (useEnhanceTask_onSuccess (Enveloped_result enhance_envelope) sample_app)
         [Some (JStr ''tasks''), Some (JStr ''detail''), Some JNull]
       = Some \<lparr>state_data = Some (EnhanceResultData enhance_envelope), isInvalidated = False\<rparr>
   \<and> [Some (JStr ''tasks''), Some (JStr ''detail''), None] \<noteq> taskKeys_detail 7
   \<and> \<not> partialMatchKey [Some (JStr ''tasks''), Some (JStr ''detail''), None] taskKeys_lists
   \<and> client (useEnhanceTask_onSuccess (Enveloped_result enhance_envelope) sample_app) (taskKeys_detail 7)
       = client sample_app (taskKeys_detail 7)"
  by (simp add: client_enhance invalidateQueries_def mark_invalidated_def setQueryData_def
        hashKey_def sample_app_def sample_client_def task_key_defs category_key_defs
        enhanced_report_task_def report_task_def)

section \<open>Retry policy\<close>

text \<open>
  Claim C3. For every error and failure count the retry predicate of read queries answers
  no whenever the error carries a response status of at least 400 and below 500, and
  otherwise answers yes exactly when fewer than three failures have occurred; mutations
  are configured never to retry.
\<close>

theorem retry_policy:
  "should_retry (queries_retry_option defaultOptions) failureCount err =
     (if (\<exists>r. response err = Some r \<and> 400 \<le> status r \<and> status r < 500)
      then False else failureCount < 3)
   \<and> should_retry (mutations_retry_option defaultOptions) failureCount err = False"
  by (cases "response err") (simp_all add: defaultOptions_def queries_retry_def status_is_4xx_def)

theorem retry_policy_witness:
  "should_retry (queries_retry_option defaultOptions) 0 (rejection 404 None) = False
   \<and> should_retry (queries_retry_option defaultOptions) 2 (rejection 503 None) = True
   \<and> should_retry (queries_retry_option defaultOptions) 3 (rejection 503 None) = False
   \<and> should_retry (queries_retry_option defaultOptions) 2
        \<lparr>response = None, message = Some ''Network Error''\<rparr> = True
   \<and> should_retry (mutations_retry_option defaultOptions) 0
        \<lparr>response = None, message = Some ''Network Error''\<rparr> = False"
  using retry_policy [of 0 "rejection 404 None"]
        retry_policy [of 2 "rejection 503 None"]
        retry_policy [of 3 "rejection 503 None"]
        retry_policy [of 2 "\<lparr>response = None, message = Some ''Network Error''\<rparr>"]
        retry_policy [of 0 "\<lparr>response = None, message = Some ''Network Error''\<rparr>"]
  by (simp add: rejection_def)

section \<open>Category mutations\<close>







section \<open>Local storage and the Authorization header\<close>

lemma api_request_storage [simp]:
  "localStorage (snd (api_request srv cfg b)) = localStorage b"
  by (simp add: api_request_def Let_def)

lemma api_request_sent:
  "sent (snd (api_request srv cfg b)) = sent b @ [request_interceptor (localStorage b) cfg]"
  by (simp add: api_request_def Let_def)

lemma api_verbs_storage [simp]:
  "localStorage (snd (api_get srv path ps b)) = localStorage b"
  "localStorage (snd (api_post srv path payload b)) = localStorage b"
  "localStorage (snd (api_patch srv path payload b)) = localStorage b"
  "localStorage (snd (api_delete srv path b)) = localStorage b"
  by (simp_all add: api_get_def api_post_def api_patch_def api_delete_def)

lemma discard_body_snd [simp]: "snd (discard_body r) = snd r"
  by (simp add: discard_body_def split: prod.splits sum.splits)

lemma interceptor_no_token:
  "storage ''access_token'' = None \<Longrightarrow> request_interceptor storage cfg = cfg"
  by (simp add: request_interceptor_def)

lemma getCategories_storage:
  "localStorage (snd (categoriesApi_getCategories srv b)) = localStorage b"
proof -
  have "snd (categoriesApi_getCategories srv b) = snd (api_get srv ''/categories/'' [] b)"
    by (simp add: categoriesApi_getCategories_def split: prod.splits sum.splits categories_body.splits)
  then show ?thesis by simp
qed

lemma login_storage:
  "localStorage (snd (authApi_login srv u p b)) =
     (case srv (request_interceptor (localStorage b)
                  \<lparr>http_method = POST, url = ''/auth/login/'', headers = default_headers,
                   params = [], body = Some (credentials u p)\<rparr>) of
        Inl e \<Rightarrow> localStorage b
      | Inr t \<Rightarrow> (localStorage b)(''access_token'' \<mapsto> access t, ''refresh_token'' \<mapsto> refresh t))"
  by (simp add: authApi_login_def api_post_def api_request_def Let_def localStorage_setItem_def
        split: sum.splits)

lemma logout_storage:
  "localStorage (authApi_logout b) = (localStorage b)(''access_token'' := None, ''refresh_token'' := None)"
  by (simp add: authApi_logout_def localStorage_removeItem_def)

lemma logout_sent: "sent (authApi_logout b) = sent b"
  by (simp add: authApi_logout_def localStorage_removeItem_def)

lemma tasksApi_storage:
  "localStorage (snd (tasksApi_getTasks srv fs b)) = localStorage b"
  "localStorage (snd (tasksApi_getTask srv_task i b)) = localStorage b"
  "localStorage (snd (tasksApi_createTask srv_task payload b)) = localStorage b"
  "localStorage (snd (tasksApi_updateTask srv_task i payload b)) = localStorage b"
  "localStorage (snd (tasksApi_deleteTask srv i b)) = localStorage b"
  "localStorage (snd (tasksApi_completeTask srv_task i b)) = localStorage b"
  "localStorage (snd (tasksApi_enhanceTask srv i ctx b)) = localStorage b"
  "localStorage (snd (tasksApi_getAIRecommendations srv limit b)) = localStorage b"
  "localStorage (snd (tasksApi_recalculatePriority srv i b)) = localStorage b"
  "localStorage (snd (tasksApi_getStats srv b)) = localStorage b"
  "localStorage (snd (tasksApi_getTodayTasks srv_tasks b)) = localStorage b"
  "localStorage (snd (tasksApi_getOverdueTasks srv_tasks b)) = localStorage b"
  by (simp_all add: tasksApi_getTasks_def tasksApi_getTask_def tasksApi_createTask_def
        tasksApi_updateTask_def tasksApi_deleteTask_def tasksApi_completeTask_def
        tasksApi_enhanceTask_def tasksApi_getAIRecommendations_def tasksApi_recalculatePriority_def
        tasksApi_getStats_def tasksApi_getTodayTasks_def tasksApi_getOverdueTasks_def)

lemma categoriesApi_storage:
  "localStorage (snd (categoriesApi_getCategories srv_list b)) = localStorage b"
  "localStorage (snd (categoriesApi_createCategory srv_category payload b)) = localStorage b"
  "localStorage (snd (categoriesApi_updateCategory srv_category i payload b)) = localStorage b"
  "localStorage (snd (categoriesApi_deleteCategory srv i b)) = localStorage b"
  by (simp_all add: getCategories_storage categoriesApi_createCategory_def
        categoriesApi_updateCategory_def categoriesApi_deleteCategory_def)

lemma contextApi_storage:
  "localStorage (snd (contextApi_getContextEntries srv cf b)) = localStorage b"
  "localStorage (snd (contextApi_createContextEntry srv payload b)) = localStorage b"
  "localStorage (snd (contextApi_updateContextEntry srv i payload b)) = localStorage b"
  "localStorage (snd (contextApi_deleteContextEntry srv i b)) = localStorage b"
  "localStorage (snd (contextApi_analyzeContext srv i b)) = localStorage b"
  "localStorage (snd (contextApi_getSummary srv day b)) = localStorage b"
  "localStorage (snd (contextApi_bulkProcess srv ids b)) = localStorage b"
  "localStorage (snd (contextApi_getUnprocessed srv b)) = localStorage b"
  "localStorage (snd (contextApi_getHighRelevance srv b)) = localStorage b"
  "localStorage (snd (contextApi_getWithSuggestions srv b)) = localStorage b"
  by (simp_all add: contextApi_getContextEntries_def contextApi_createContextEntry_def
        contextApi_updateContextEntry_def contextApi_deleteContextEntry_def
        contextApi_analyzeContext_def contextApi_getSummary_def contextApi_bulkProcess_def
        contextApi_getUnprocessed_def contextApi_getHighRelevance_def
        contextApi_getWithSuggestions_def)

lemma aiApi_storage:
  "localStorage (snd (aiApi_enhanceTask srv i ctx b)) = localStorage b"
  "localStorage (snd (aiApi_getTaskRecommendations srv limit b)) = localStorage b"
  "localStorage (snd (aiApi_suggestTasksFromContext srv ids b)) = localStorage b"
  "localStorage (snd (aiApi_analyzeContext srv i b)) = localStorage b"
  "localStorage (snd (aiApi_generateContextSummary srv day day' limit b)) = localStorage b"
  "localStorage (snd (aiApi_bulkProcessContext srv ids b)) = localStorage b"
  "localStorage (snd (aiApi_generateDailyInsights srv day b)) = localStorage b"
  "localStorage (snd (aiApi_analyzeProductivityPatterns srv limit b)) = localStorage b"
  "localStorage (snd (aiApi_healthCheck srv b)) = localStorage b"
  by (simp_all add: aiApi_enhanceTask_def aiApi_getTaskRecommendations_def
        aiApi_suggestTasksFromContext_def aiApi_analyzeContext_def
        aiApi_generateContextSummary_def aiApi_bulkProcessContext_def
        aiApi_generateDailyInsights_def aiApi_analyzeProductivityPatterns_def aiApi_healthCheck_def)

lemma insightsApi_storage:
  "localStorage (snd (insightsApi_getInsights srv dayp b)) = localStorage b"
  "localStorage (snd (insightsApi_getInsight srv i b)) = localStorage b"
  "localStorage (snd (insightsApi_getActionableInsights srv b)) = localStorage b"
  "localStorage (snd (insightsApi_dismissInsight srv i b)) = localStorage b"
  by (simp_all add: insightsApi_getInsights_def insightsApi_getInsight_def
        insightsApi_getActionableInsights_def insightsApi_dismissInsight_def)

lemma signup_storage:
  "localStorage (snd (authApi_signup srv u p b)) = localStorage b"
  by (simp add: authApi_signup_def)

text \<open>
  Claim C5. Login, when the server accepts it, writes exactly the two keys
  \<open>access_token\<close> and \<open>refresh_token\<close> to local storage (and writes nothing when the
  server rejects it); logout removes exactly those two keys and sends nothing; every
  other method of the API client leaves local storage as it was; and a request issued
  while local storage holds no \<open>access_token\<close>, as after logout, leaves the interceptor
  unchanged and carries no \<open>Authorization\<close> header.
\<close>

theorem local_storage_effects:
  "(\<forall>t. srv_login (request_interceptor (localStorage b)
                 \<lparr>http_method = POST, url = ''/auth/login/'', headers = default_headers,
                  params = [], body = Some (credentials u p)\<rparr>) = Inr t
        \<longrightarrow> localStorage (snd (authApi_login srv_login u p b))
              = (localStorage b)(''access_token'' \<mapsto> access t, ''refresh_token'' \<mapsto> refresh t))
   \<and> (\<forall>e. srv_login (request_interceptor (localStorage b)
                 \<lparr>http_method = POST, url = ''/auth/login/'', headers = default_headers,
                  params = [], body = Some (credentials u p)\<rparr>) = Inl e
        \<longrightarrow> localStorage (snd (authApi_login srv_login u p b)) = localStorage b)
   \<and> localStorage (authApi_logout b)
         = (localStorage b)(''access_token'' := None, ''refresh_token'' := None)
   \<and> sent (authApi_logout b) = sent b
   \<and> localStorage (authApi_logout b) ''access_token'' = None
   \<and> (localStorage b ''access_token'' = None
        \<longrightarrow> request_interceptor (localStorage b) cfg = cfg
          \<and> sent (snd (api_request srv cfg b)) = sent b @ [cfg]
          \<and> map_of (headers (last (sent (snd (api_get srv path ps b))))) ''Authorization'' = None
          \<and> map_of (headers (last (sent (snd (api_post srv path body_opt b))))) ''Authorization'' = None
          \<and> map_of (headers (last (sent (snd (api_patch srv path body_opt b))))) ''Authorization'' = None
          \<and> map_of (headers (last (sent (snd (api_delete srv path b))))) ''Authorization'' = None)
   \<and> localStorage (snd (tasksApi_getTasks srv fs b)) = localStorage b
   \<and> localStorage (snd (tasksApi_getTask srv_task i b)) = localStorage b
   \<and> localStorage (snd (tasksApi_createTask srv_task payload b)) = localStorage b
   \<and> localStorage (snd (tasksApi_updateTask srv_task i payload b)) = localStorage b
   \<and> localStorage (snd (tasksApi_deleteTask srv i b)) = localStorage b
   \<and> localStorage (snd (tasksApi_completeTask srv_task i b)) = localStorage b
   \<and> localStorage (snd (tasksApi_enhanceTask srv i ctx b)) = localStorage b
   \<and> localStorage (snd (tasksApi_getAIRecommendations srv limit b)) = localStorage b
   \<and> localStorage (snd (tasksApi_recalculatePriority srv i b)) = localStorage b
   \<and> localStorage (snd (tasksApi_getStats srv b)) = localStorage b
   \<and> localStorage (snd (tasksApi_getTodayTasks srv_tasks b)) = localStorage b
   \<and> localStorage (snd (tasksApi_getOverdueTasks srv_tasks b)) = localStorage b
   \<and> localStorage (snd (categoriesApi_getCategories srv_list b)) = localStorage b
   \<and> localStorage (snd (categoriesApi_createCategory srv_category payload b)) = localStorage b
   \<and> localStorage (snd (categoriesApi_updateCategory srv_category i payload b)) = localStorage b
   \<and> localStorage (snd (categoriesApi_deleteCategory srv i b)) = localStorage b
   \<and> localStorage (snd (contextApi_getContextEntries srv cf b)) = localStorage b
   \<and> localStorage (snd (contextApi_createContextEntry srv payload b)) = localStorage b
   \<and> localStorage (snd (contextApi_updateContextEntry srv i payload b)) = localStorage b
   \<and> localStorage (snd (contextApi_deleteContextEntry srv i b)) = localStorage b
   \<and> localStorage (snd (contextApi_analyzeContext srv i b)) = localStorage b
   \<and> localStorage (snd (contextApi_getSummary srv day b)) = localStorage b
   \<and> localStorage (snd (contextApi_bulkProcess srv ids b)) = localStorage b
   \<and> localStorage (snd (contextApi_getUnprocessed srv b)) = localStorage b
   \<and> localStorage (snd (contextApi_getHighRelevance srv b)) = localStorage b
   \<and> localStorage (snd (contextApi_getWithSuggestions srv b)) = localStorage b
   \<and> localStorage (snd (aiApi_enhanceTask srv i ctx b)) = localStorage b
   \<and> localStorage (snd (aiApi_getTaskRecommendations srv limit b)) = localStorage b
   \<and> localStorage (snd (aiApi_suggestTasksFromContext srv ids b)) = localStorage b
   \<and> localStorage (snd (aiApi_analyzeContext srv i b)) = localStorage b
   \<and> localStorage (snd (aiApi_generateContextSummary srv day day' limit b)) = localStorage b
   \<and> localStorage (snd (aiApi_bulkProcessContext srv ids b)) = localStorage b
   \<and> localStorage (snd (aiApi_generateDailyInsights srv day b)) = localStorage b
   \<and> localStorage (snd (aiApi_analyzeProductivityPatterns srv limit b)) = localStorage b
   \<and> localStorage (snd (aiApi_healthCheck srv b)) = localStorage b
   \<and> localStorage (snd (insightsApi_getInsights srv dayp b)) = localStorage b
   \<and> localStorage (snd (insightsApi_getInsight srv i b)) = localStorage b
   \<and> localStorage (snd (insightsApi_getActionableInsights srv b)) = localStorage b
   \<and> localStorage (snd (insightsApi_dismissInsight srv i b)) = localStorage b
   \<and> localStorage (snd (authApi_signup srv u p b)) = localStorage b"
proof -
  have verbs:
    "map_of (headers (last (sent (snd (api_get srv path ps b))))) ''Authorization'' = None"
    "map_of (headers (last (sent (snd (api_post srv path body_opt b))))) ''Authorization'' = None"
    "map_of (headers (last (sent (snd (api_patch srv path body_opt b))))) ''Authorization'' = None"
    "map_of (headers (last (sent (snd (api_delete srv path b))))) ''Authorization'' = None"
    if "localStorage b ''access_token'' = None"
    using that
    by (simp_all add: api_get_def api_post_def api_patch_def api_delete_def api_request_sent
          interceptor_no_token default_headers_def)
  show ?thesis
    by (simp add: login_storage logout_storage logout_sent tasksApi_storage categoriesApi_storage
          contextApi_storage aiApi_storage insightsApi_storage signup_storage
          interceptor_no_token api_request_sent verbs)
qed

theorem local_storage_effects_witness:
  "localStorage (snd (authApi_login (\<lambda>req. Inr \<lparr>access = ''A1'', refresh = ''R1''\<rparr>) ''ann'' ''pw'' signed_out))
     = [''access_token'' \<mapsto> ''A1'', ''refresh_token'' \<mapsto> ''R1'']
   \<and> localStorage (snd (authApi_login (\<lambda>req. Inl (rejection 401 None)) ''ann'' ''pw'' signed_out))
     = Map.empty
   \<and> localStorage signed_in ''access_token'' = Some ''abc''
   \<and> localStorage (authApi_logout signed_in) ''access_token'' = None
   \<and> localStorage (authApi_logout signed_in) ''refresh_token'' = None
   \<and> localStorage (authApi_logout signed_in) ''username'' = Some ''ann''
   \<and> sent (snd (tasksApi_getStats (\<lambda>req. Inl (rejection 401 None) :: api_error + unit)
                    (authApi_logout signed_in)))
     = [stats_request]
   \<and> map_of (headers stats_request) ''Authorization'' = None"
proof -
  note login = local_storage_effects
      [where u = "''ann''" and p = "''pw''" and b = signed_out, THEN conjunct1, rule_format]
  note login_rejected = local_storage_effects
      [where u = "''ann''" and p = "''pw''" and b = signed_out, THEN conjunct2, THEN conjunct1,
       rule_format]
  note cleared = local_storage_effects
      [where b = signed_in, THEN conjunct2, THEN conjunct2, THEN conjunct1]
  note nothing_sent = local_storage_effects
      [where b = signed_in, THEN conjunct2, THEN conjunct2, THEN conjunct2, THEN conjunct1]
  note after = local_storage_effects
      [where b = signed_in, THEN conjunct2, THEN conjunct2, THEN conjunct2, THEN conjunct2,
       THEN conjunct1]
  note unauthorised = local_storage_effects
      [where b = "authApi_logout signed_in" and cfg = stats_request
         and srv = "\<lambda>req. Inl (rejection 401 None) :: api_error + unit",
       THEN conjunct2, THEN conjunct2, THEN conjunct2, THEN conjunct2, THEN conjunct2,
       THEN conjunct1, rule_format, OF after, THEN conjunct2, THEN conjunct1]
  have accepted:
    "localStorage (snd (authApi_login (\<lambda>req. Inr \<lparr>access = ''A1'', refresh = ''R1''\<rparr>) ''ann'' ''pw'' signed_out))
       = (localStorage signed_out)(''access_token'' \<mapsto> ''A1'', ''refresh_token'' \<mapsto> ''R1'')"
    using login [where srv_login = "\<lambda>req. Inr \<lparr>access = ''A1'', refresh = ''R1''\<rparr>"
                   and t = "\<lparr>access = ''A1'', refresh = ''R1''\<rparr>"]
    by simp
  have rejected:
    "localStorage (snd (authApi_login (\<lambda>req. Inl (rejection 401 None)) ''ann'' ''pw'' signed_out))
       = localStorage signed_out"
    using login_rejected [where srv_login = "\<lambda>req. Inl (rejection 401 None)"
                            and e = "rejection 401 None"]
    by simp
  from unauthorised nothing_sent
  have request: "sent (snd (tasksApi_getStats (\<lambda>req. Inl (rejection 401 None) :: api_error + unit)
                    (authApi_logout signed_in))) = [stats_request]"
    by (simp add: tasksApi_getStats_def api_get_def stats_request_def signed_in_def)
  have kept: "localStorage (authApi_logout signed_in) ''refresh_token'' = None"
    "localStorage (authApi_logout signed_in) ''username'' = Some ''ann''"
    unfolding cleared by (simp_all add: signed_in_def)
  have before: "localStorage signed_in ''access_token'' = Some ''abc''"
    "map_of (headers stats_request) ''Authorization'' = None"
    by (simp_all add: signed_in_def stats_request_def default_headers_def)
  have accepted': "localStorage (snd (authApi_login (\<lambda>req. Inr \<lparr>access = ''A1'', refresh = ''R1''\<rparr>) ''ann'' ''pw'' signed_out))
       = [''access_token'' \<mapsto> ''A1'', ''refresh_token'' \<mapsto> ''R1'']"
    "localStorage (snd (authApi_login (\<lambda>req. Inl (rejection 401 None)) ''ann'' ''pw'' signed_out))
       = Map.empty"
    unfolding accepted rejected by (simp_all add: signed_out_def)
  from accepted' before after kept request show ?thesis
    by blast
qed

section \<open>Signup form\<close>

text \<open>
  Claim C6. When the password and its confirmation differ, submitting the signup form sets
  the error to exactly \<open>Passwords do not match.\<close> and stops there: the signup call is
  never made, so nothing is sent and local storage is untouched, no route is pushed, and
  the rest of the form state, the loading flag included, stays as it was.
\<close>

theorem signup_password_mismatch:
  "password (page env) \<noteq> confirmPassword (page env) \<longrightarrow>
     handleSubmit srv env =
       env\<lparr>defaultPrevented := True,
           page := (page env)\<lparr>error := JStr ''Passwords do not match.''\<rparr>\<rparr>
     \<and> error (page (handleSubmit srv env)) = JStr ''Passwords do not match.''
     \<and> sent (page_net (handleSubmit srv env)) = sent (page_net env)
     \<and> page_net (handleSubmit srv env) = page_net env
     \<and> pushed (handleSubmit srv env) = pushed env
     \<and> loading (page (handleSubmit srv env)) = loading (page env)"
  by (simp add: handleSubmit_def setError_def Let_def)

theorem signup_password_mismatch_witness:
  "password (page (sample_form ''secret1'' ''secret2'')) \<noteq> confirmPassword (page (sample_form ''secret1'' ''secret2''))
   \<and> error (page (handleSubmit (\<lambda>req. Inr ()) (sample_form ''secret1'' ''secret2'')))
       = JStr ''Passwords do not match.''
   \<and> sent (page_net (handleSubmit (\<lambda>req. Inr ()) (sample_form ''secret1'' ''secret2''))) = []
   \<and> pushed (handleSubmit (\<lambda>req. Inr ()) (sample_form ''secret1'' ''secret2'')) = []
   \<and> loading (page (handleSubmit (\<lambda>req. Inr ()) (sample_form ''secret1'' ''secret2''))) = False"
proof -
  have differ: "password (page (sample_form ''secret1'' ''secret2''))
                  \<noteq> confirmPassword (page (sample_form ''secret1'' ''secret2''))"
    by (simp add: sample_form_def)
  from signup_password_mismatch
         [where env = "sample_form ''secret1'' ''secret2''" and srv = "\<lambda>req. Inr ()", rule_format,
          OF differ]
  have "error (page (handleSubmit (\<lambda>req. Inr ()) (sample_form ''secret1'' ''secret2'')))
          = JStr ''Passwords do not match.''"
    and "sent (page_net (handleSubmit (\<lambda>req. Inr ()) (sample_form ''secret1'' ''secret2'')))
          = sent (page_net (sample_form ''secret1'' ''secret2''))"
    and "pushed (handleSubmit (\<lambda>req. Inr ()) (sample_form ''secret1'' ''secret2''))
          = pushed (sample_form ''secret1'' ''secret2'')"
    and "loading (page (handleSubmit (\<lambda>req. Inr ()) (sample_form ''secret1'' ''secret2'')))
          = loading (page (sample_form ''secret1'' ''secret2''))"
    by blast+
  with differ show ?thesis
    by (simp add: sample_form_def)
qed










section \<open>Task card\<close>

lemma show_int_small: "show_int 7 = ''7''"
  by (simp add: show_int_def show_nat.simps digit_char_def)

lemma net_toast [simp]: "net (toast_success m s) = net s" "net (toast_error v s) = net s"
  by (simp_all add: toast_success_def toast_error_def)

lemma net_queryClient [simp]:
  "net (queryClient_invalidateQueries k s) = net s"
  "net (queryClient_removeQueries k s) = net s"
  "net (queryClient_setQueryData k v s) = net s"
  by (simp_all add: queryClient_invalidateQueries_def queryClient_removeQueries_def
        queryClient_setQueryData_def)

lemma net_handlers [simp]:
  "net (useUpdateTask_onSuccess t s) = net s"
  "net (useCompleteTask_onSuccess t s) = net s"
  "net (onError e s) = net s"
  by (simp_all add: useUpdateTask_onSuccess_def useCompleteTask_onSuccess_def onError_def Let_def)

lemma net_mutate:
  assumes "\<And>d v s. net (ok d v s) = net s" and "\<And>e s. net (ko e s) = net s"
  shows "net (mutate f ok ko v s) = snd (f v (net s))"
  by (simp add: mutate_def assms split: prod.splits sum.splits)

text \<open>
  Claim C8. Toggling the completion checkbox of a task card issues exactly one request,
  chosen by the task's current state. For a completed task it is the generic update,
  \<open>PATCH /tasks/{id}/\<close> with the payload \<open>{is_completed: false}\<close>, and not the
  completion endpoint; for a task that is not completed it is
  \<open>POST /tasks/{id}/complete/\<close>, without a payload.
\<close>

theorem toggle_complete_request:
  "sent (net (handleToggleComplete srv t s)) =
     sent (net s) @
       [request_interceptor (localStorage (net s))
          (if is_completed t
           then \<lparr>http_method = PATCH, url = ''/tasks/'' @ show_int (task_id t) @ ''/'',
                 headers = default_headers, params = [],
                 body = Some (JObj [(''is_completed'', JBool False)])\<rparr>
           else \<lparr>http_method = POST, url = ''/tasks/'' @ show_int (task_id t) @ ''/complete/'',
                 headers = default_headers, params = [], body = None\<rparr>)]"
  by (simp add: handleToggleComplete_def useUpdateTask_mutate_def useCompleteTask_mutate_def
        net_mutate tasksApi_updateTask_def tasksApi_completeTask_def api_patch_def api_post_def
        api_request_sent)

theorem toggle_complete_request_witness:
  "sent (net (handleToggleComplete (\<lambda>req. Inr (report_task\<lparr>is_completed := True\<rparr>))
                report_task sample_app))
     = [\<lparr>http_method = POST, url = ''/tasks/7/complete/'',
          headers = [(''Content-Type'', ''application/json''), (''Authorization'', ''Bearer abc'')],
          params = [], body = None\<rparr>]
   \<and> sent (net (handleToggleComplete (\<lambda>req. Inr report_task)
                (report_task\<lparr>is_completed := True\<rparr>) sample_app))
     = [\<lparr>http_method = PATCH, url = ''/tasks/7/'',
          headers = [(''Content-Type'', ''application/json''), (''Authorization'', ''Bearer abc'')],
          params = [], body = Some (JObj [(''is_completed'', JBool False)])\<rparr>]"
  using toggle_complete_request
          [of "\<lambda>req. Inr (report_task\<lparr>is_completed := True\<rparr>)" report_task sample_app]
        toggle_complete_request
          [of "\<lambda>req. Inr report_task" "report_task\<lparr>is_completed := True\<rparr>" sample_app]
  by (simp add: sample_app_def signed_in_def report_task_def request_interceptor_def
        default_headers_def show_int_small)

text \<open>
  Claim C9. The task card offers the AI enhancement exactly when the task is not completed
  and has no AI-enhanced description (none at all, or an empty one); a task that is
  completed, or that already has an AI-enhanced description, is offered no enhancement.
\<close>

theorem enhance_offered:
  "(EnhanceWithAI \<in> set (card_actions t))
      = (\<not> is_completed t \<and> (ai_enhanced_description t = None \<or> ai_enhanced_description t = Some []))
   \<and> (is_completed t \<longrightarrow> EnhanceWithAI \<notin> set (card_actions t))
   \<and> (\<forall>d. ai_enhanced_description t = Some d \<and> d \<noteq> [] \<longrightarrow> EnhanceWithAI \<notin> set (card_actions t))"
  by (cases "ai_enhanced_description t") (auto simp add: card_actions_def)

theorem enhance_offered_witness:
  "card_actions report_task = [EnhanceWithAI, EditTask, DeleteTask]
   \<and> card_actions (report_task\<lparr>is_completed := True\<rparr>) = [EditTask, DeleteTask]
   \<and> card_actions (report_task\<lparr>ai_enhanced_description := Some ''Draft the quarterly report''\<rparr>)
       = [EditTask, DeleteTask]
   \<and> EnhanceWithAI \<in> set (card_actions report_task)
   \<and> EnhanceWithAI \<notin> set (card_actions (report_task\<lparr>is_completed := True\<rparr>))
   \<and> EnhanceWithAI \<notin> set (card_actions
         (report_task\<lparr>ai_enhanced_description := Some ''Draft the quarterly report''\<rparr>))"
proof -
  have shown: "EnhanceWithAI \<in> set (card_actions report_task)"
    using enhance_offered [of report_task] by (simp add: report_task_def)
  have completed: "EnhanceWithAI \<notin> set (card_actions (report_task\<lparr>is_completed := True\<rparr>))"
    using enhance_offered [of "report_task\<lparr>is_completed := True\<rparr>"] by simp
  have enhanced: "EnhanceWithAI \<notin> set (card_actions
         (report_task\<lparr>ai_enhanced_description := Some ''Draft the quarterly report''\<rparr>))"
    using enhance_offered
            [of "report_task\<lparr>ai_enhanced_description := Some ''Draft the quarterly report''\<rparr>"]
    by simp
  have rows: "card_actions report_task = [EnhanceWithAI, EditTask, DeleteTask]"
    "card_actions (report_task\<lparr>is_completed := True\<rparr>) = [EditTask, DeleteTask]"
    "card_actions (report_task\<lparr>ai_enhanced_description := Some ''Draft the quarterly report''\<rparr>)
       = [EditTask, DeleteTask]"
    by (simp_all add: card_actions_def report_task_def)
  from shown completed enhanced rows show ?thesis by blast
qed

section \<open>Error formatter\<close>

text \<open>
  Claim C10, as amended. \<open>getErrorMessage\<close> is defined on every error and selects, in
  this order, the \<open>message\<close> of the response body if it is truthy, else the \<open>detail\<close>
  of the response body if it is truthy, else the error's own message if it is not empty,
  else the fixed text \<open>An unexpected error occurred\<close>. The result is a string whenever
  the \<open>message\<close> and \<open>detail\<close> of the body, where present, are strings. For a body
  that is a map from fields to message arrays without a \<open>message\<close> or \<open>detail\<close> key,
  the field messages are not flattened: the result is the error's own message or the
  fixed text.
\<close>

theorem getErrorMessage_precedence:
  "(\<forall>m. get_prop (response_data err) ''message'' = Some m \<and> truthy m \<longrightarrow> getErrorMessage err = m)
   \<and> (\<forall>d. \<not> truthy_opt (get_prop (response_data err) ''message'')
          \<and> get_prop (response_data err) ''detail'' = Some d \<and> truthy d \<longrightarrow> getErrorMessage err = d)
   \<and> (\<forall>m. \<not> truthy_opt (get_prop (response_data err) ''message'')
          \<and> \<not> truthy_opt (get_prop (response_data err) ''detail'')
          \<and> message err = Some m \<and> m \<noteq> [] \<longrightarrow> getErrorMessage err = JStr m)
   \<and> (\<not> truthy_opt (get_prop (response_data err) ''message'')
          \<and> \<not> truthy_opt (get_prop (response_data err) ''detail'')
          \<and> (message err = None \<or> message err = Some [])
        \<longrightarrow> getErrorMessage err = JStr ''An unexpected error occurred'')
   \<and> ((\<forall>v. get_prop (response_data err) ''message'' = Some v \<longrightarrow> is_string v)
          \<and> (\<forall>v. get_prop (response_data err) ''detail'' = Some v \<longrightarrow> is_string v)
        \<longrightarrow> is_string (getErrorMessage err))
   \<and> (\<forall>kvs. response_data err = Some (JObj kvs)
          \<and> ''message'' \<notin> fst ` set kvs \<and> ''detail'' \<notin> fst ` set kvs
        \<longrightarrow> getErrorMessage err =
              JStr (case when_nonempty (message err) of
                      Some m \<Rightarrow> m
                    | None \<Rightarrow> ''An unexpected error occurred''))"
proof -
  have absent: "map_of kvs k = None" if "k \<notin> fst ` set kvs" for kvs :: "(string \<times> json) list" and k
    using that by (simp add: map_of_eq_None_iff)
  show ?thesis
    by (cases "get_prop (response_data err) ''message''";
        cases "get_prop (response_data err) ''detail''";
        cases "message err")
       (auto simp add: getErrorMessage_def fallback_message_def absent split: option.splits)
qed

theorem getErrorMessage_precedence_witness:
  "getErrorMessage (rejection 400 (Some (JObj [(''message'', JStr ''Title is required''),
                                               (''detail'', JStr ''Bad request'')])))
     = JStr ''Title is required''
   \<and> getErrorMessage (rejection 404 (Some (JObj [(''detail'', JStr ''Not found.'')])))
     = JStr ''Not found.''
   \<and> getErrorMessage (rejection 400 (Some (JObj [(''title'', JArr [JStr ''This field is required.''])])))
     = JStr ''Request failed''
   \<and> getErrorMessage \<lparr>response = None, message = None\<rparr> = JStr ''An unexpected error occurred''
   \<and> is_string (getErrorMessage (rejection 404 (Some (JObj [(''detail'', JStr ''Not found.'')]))))"
proof -
  have first: "getErrorMessage (rejection 400 (Some (JObj [(''message'', JStr ''Title is required''),
                                               (''detail'', JStr ''Bad request'')])))
     = JStr ''Title is required''"
    using getErrorMessage_precedence
            [of "rejection 400 (Some (JObj [(''message'', JStr ''Title is required''),
                                            (''detail'', JStr ''Bad request'')]))",
             THEN conjunct1, rule_format, of "JStr ''Title is required''"]
    by (simp add: rejection_def response_data_def)
  have second: "getErrorMessage (rejection 404 (Some (JObj [(''detail'', JStr ''Not found.'')])))
     = JStr ''Not found.''"
    using getErrorMessage_precedence
            [of "rejection 404 (Some (JObj [(''detail'', JStr ''Not found.'')]))",
             THEN conjunct2, THEN conjunct1, rule_format, of "JStr ''Not found.''"]
    by (simp add: rejection_def response_data_def)
  have third: "getErrorMessage (rejection 400 (Some (JObj [(''title'', JArr [JStr ''This field is required.''])])))
     = JStr ''Request failed''"
    using getErrorMessage_precedence
            [of "rejection 400 (Some (JObj [(''title'', JArr [JStr ''This field is required.''])]))",
             THEN conjunct2, THEN conjunct2, THEN conjunct2, THEN conjunct2, THEN conjunct2,
             rule_format, of "[(''title'', JArr [JStr ''This field is required.''])]"]
    by (simp add: rejection_def response_data_def)
  have fourth: "getErrorMessage \<lparr>response = None, message = None\<rparr> = JStr ''An unexpected error occurred''"
    using getErrorMessage_precedence
            [of "\<lparr>response = None, message = None\<rparr>",
             THEN conjunct2, THEN conjunct2, THEN conjunct2, THEN conjunct1]
    by (simp add: response_data_def)
  have fifth: "is_string (getErrorMessage (rejection 404 (Some (JObj [(''detail'', JStr ''Not found.'')]))))"
    using getErrorMessage_precedence
            [of "rejection 404 (Some (JObj [(''detail'', JStr ''Not found.'')]))",
             THEN conjunct2, THEN conjunct2, THEN conjunct2, THEN conjunct2, THEN conjunct1]
    by (simp add: rejection_def response_data_def)
  from first second third fourth fifth show ?thesis by blast
qed

text \<open>
  The claim as first stated promises a string for every input. For a rejected form whose
  body reports a field named \<open>message\<close> with its array of messages, the formatter
  returns that array.
\<close>

theorem getErrorMessage_not_always_string:
  "getErrorMessage (rejection 400 (Some (JObj [(''message'', JArr [JStr ''This field may not be blank.''])])))
     = JArr [JStr ''This field may not be blank.'']
   \<and> \<not> is_string (getErrorMessage
         (rejection 400 (Some (JObj [(''message'', JArr [JStr ''This field may not be blank.''])]))))"
  by (simp add: getErrorMessage_def rejection_def response_data_def)

end
